theory Spec2Isabelle
  imports Main "HOL-Library.AList"
begin

section \<open>Python floats\<close>

text \<open>
  A Python float is an IEEE 754 binary64 number. \<open>Finite sign m e\<close> is the number
  \<open>m * 2 ^ e\<close>, negative when \<open>sign\<close> holds; the results of the operations are in
  the form of the format: a mantissa of 53 bits, \<open>2 ^ 52 \<le> m < 2 ^ 53\<close>, with
  \<open>- 1074 \<le> e \<le> 971\<close>, or a smaller mantissa with \<open>e = - 1074\<close> (zero and the
  subnormal numbers). There are two zeros, two infinities and NaN.
\<close>

datatype float64 = Finite bool nat int | Infinity bool | NaN

text \<open>The number of bits of a natural number.\<close>

fun bitlen :: "nat \<Rightarrow> nat" where
  "bitlen n = (if n = 0 then 0 else Suc (bitlen (n div 2)))"

declare bitlen.simps [simp del]

text \<open>
  Rounding of the exact number \<open>m * 2 ^ e\<close> to the nearest float, a tie going to the
  even mantissa: \<open>shift\<close> is the number of low bits that do not fit. A number beyond the
  largest float becomes an infinity.
\<close>

definition round_float64 :: "bool \<Rightarrow> nat \<Rightarrow> int \<Rightarrow> float64" where
  "round_float64 sign m e =
     (if m = 0 then Finite sign 0 (- 1074)
      else
        (let shift = max (int (bitlen m) - 53) (- 1074 - e) in
         if shift \<le> 0 then
           (if e + shift > 971 then Infinity sign
            else Finite sign (m * 2 ^ nat (- shift)) (e + shift))
         else
           (let q = m div 2 ^ nat shift;
                r = m mod 2 ^ nat shift;
                half = 2 ^ nat (shift - 1);
                q' = (if r > half \<or> (r = half \<and> odd q) then q + 1 else q);
                m' = (if q' = 2 ^ 53 then 2 ^ 52 else q');
                e' = (if q' = 2 ^ 53 then e + shift + 1 else e + shift)
            in if e' > 971 then Infinity sign else Finite sign m' e')))"

definition signed :: "bool \<Rightarrow> nat \<Rightarrow> int" where
  "signed sign m = (if sign then - int m else int m)"

fun fneg :: "float64 \<Rightarrow> float64" where
  "fneg (Finite sign m e) = Finite (\<not> sign) m e"
| "fneg (Infinity sign) = Infinity (\<not> sign)"
| "fneg NaN = NaN"

fun fadd :: "float64 \<Rightarrow> float64 \<Rightarrow> float64" where
  "fadd NaN y = NaN"
| "fadd x NaN = NaN"
| "fadd (Infinity s) (Infinity t) = (if s = t then Infinity s else NaN)"
| "fadd (Infinity s) y = Infinity s"
| "fadd x (Infinity t) = Infinity t"
| "fadd (Finite s1 m1 e1) (Finite s2 m2 e2) =
     (let e0 = min e1 e2;
          a = signed s1 m1 * 2 ^ nat (e1 - e0) + signed s2 m2 * 2 ^ nat (e2 - e0)
      in if a = 0 then Finite (s1 \<and> s2) 0 (- 1074)
         else round_float64 (a < 0) (nat \<bar>a\<bar>) e0)"

text \<open>The difference \<open>x - y\<close> of two Python floats.\<close>

definition fsub :: "float64 \<Rightarrow> float64 \<Rightarrow> float64" where
  "fsub x y = fadd x (fneg y)"

fun fmul :: "float64 \<Rightarrow> float64 \<Rightarrow> float64" where
  "fmul NaN y = NaN"
| "fmul x NaN = NaN"
| "fmul (Infinity s) (Infinity t) = Infinity (s \<noteq> t)"
| "fmul (Infinity s) (Finite t m e) = (if m = 0 then NaN else Infinity (s \<noteq> t))"
| "fmul (Finite s m e) (Infinity t) = (if m = 0 then NaN else Infinity (s \<noteq> t))"
| "fmul (Finite s1 m1 e1) (Finite s2 m2 e2) = round_float64 (s1 \<noteq> s2) (m1 * m2) (e1 + e2)"

text \<open>The float nearest to an integer, Python's \<open>float(i)\<close>.\<close>

definition float_of_int :: "int \<Rightarrow> float64" where
  "float_of_int i = round_float64 (i < 0) (nat \<bar>i\<bar>) 0"

text \<open>One half, the float \<open>0.5\<close>.\<close>

definition one_half :: float64 where
  "one_half = Finite False (2 ^ 52) (- 53)"

section \<open>Exceptions, effects and the state of a run\<close>

text \<open>
  The Python exceptions that \<open>xaus.py\<close> raises or catches. \<open>NetworkError\<close>,
  \<open>RequestTimeout\<close> and \<open>ExchangeError\<close> are the three ccxt classes named in the
  \<open>except\<close> clause of \<open>call_with_retry\<close>; every other exception an operation may
  raise is \<open>OtherError\<close> (or one of the builtin classes below). \<open>RuntimeError\<close>
  carries its message and its \<open>__cause__\<close>, the operand of \<open>raise ... from\<close>.
  \<open>OutOfBoundsDatetime\<close> is the exception of pandas; its message, which differs between
  the versions of pandas, is left out.
\<close>

datatype exn =
    NetworkError string
  | RequestTimeout string
  | ExchangeError string
  | RuntimeError string "exn option"
  | ValueError string
  | KeyError string
  | OverflowError string
  | OSError string
  | OutOfBoundsDatetime
  | OtherError string

text \<open>The exceptions caught by \<open>except (NetworkError, RequestTimeout, ExchangeError)\<close>.\<close>

fun is_transient :: "exn \<Rightarrow> bool" where
  "is_transient (NetworkError m) = True"
| "is_transient (RequestTimeout m) = True"
| "is_transient (ExchangeError m) = True"
| "is_transient e = False"

text \<open>
  What a run does besides returning: it invokes the operation, it logs a warning
  (\<open>logging.warning\<close> with its arguments: action name, attempt, retries, error), and it
  sleeps. The events are kept in the order in which they happen.
\<close>

datatype event =
    Invoked
  | Warning string int int exn
  | Sleep float64

fun is_Invoked :: "event \<Rightarrow> bool" where
  "is_Invoked Invoked = True"
| "is_Invoked e = False"

fun is_Warning :: "event \<Rightarrow> bool" where
  "is_Warning (Warning a i n e) = True"
| "is_Warning e = False"

fun is_Sleep :: "event \<Rightarrow> bool" where
  "is_Sleep (Sleep d) = True"
| "is_Sleep e = False"

text \<open>
  The state threaded through the program: \<open>world\<close> is whatever the operations act on
  (the exchange and the network behind it), \<open>trace\<close> the events so far, and
  \<open>os_sleep\<close> is the sleep of the operating system under \<open>time.sleep\<close>: for a
  timeout in nanoseconds, the exception with which the call ends, or \<open>None\<close> when it
  returns after the time has passed. (Linux refuses a timeout that ends after the last
  instant of its clock, with \<open>OSError\<close>.)
\<close>

record 'w sys =
  world :: 'w
  trace :: "event list"
  os_sleep :: "int \<Rightarrow> exn option"

text \<open>
  A zero-argument operation \<open>func\<close> is a function from the world to an outcome
  (\<open>Inl\<close> an exception raised, \<open>Inr\<close> a value returned) and the world it leaves.
\<close>

type_synonym ('w, 'a) operation = "'w \<Rightarrow> (exn + 'a) \<times> 'w"

definition invoke :: "('w, 'a) operation \<Rightarrow> 'w sys \<Rightarrow> (exn + 'a) \<times> 'w sys" where
  "invoke func s =
     (case func (world s) of
        (r, w') \<Rightarrow> (r, s\<lparr>world := w', trace := trace s @ [Invoked]\<rparr>))"

definition logging_warning :: "string \<Rightarrow> int \<Rightarrow> int \<Rightarrow> exn \<Rightarrow> 'w sys \<Rightarrow> 'w sys" where
  "logging_warning action_name attempt retries err s =
     s\<lparr>trace := trace s @ [Warning action_name attempt retries err]\<rparr>"

text \<open>
  \<open>time.sleep(secs)\<close>, as CPython 3.11 does it. The float is first turned into a
  number of nanoseconds: NaN is refused, the seconds are multiplied by \<open>1e9\<close> as floats,
  the product is rounded away from zero to a whole number, and a number outside the
  64-bit range is refused with \<open>OverflowError\<close>. A negative timeout is refused with
  \<open>ValueError\<close>. Then the operating system sleeps, or fails.
\<close>

definition pytime_from_seconds :: "float64 \<Rightarrow> exn + int" where
  "pytime_from_seconds secs =
     (case secs of
        NaN \<Rightarrow> Inl (ValueError ''Invalid value NaN (not a number)'')
      | Infinity sign \<Rightarrow> Inl (OverflowError ''timestamp out of range for platform time_t'')
      | Finite sign m e \<Rightarrow>
          (case fmul secs (float_of_int 1000000000) of
             Finite sign' m' e' \<Rightarrow>
               (let magnitude =
                      (if 0 \<le> e' then int m' * 2 ^ nat e'
                       else - ((- int m') div 2 ^ nat (- e')));
                    d = (if sign' then - magnitude else magnitude)
                in if - (2 ^ 63) \<le> d \<and> d < 2 ^ 63 then Inr d
                   else Inl (OverflowError ''timestamp out of range for platform time_t''))
           | other \<Rightarrow> Inl (OverflowError ''timestamp out of range for platform time_t'')))"

definition time_sleep :: "float64 \<Rightarrow> 'w sys \<Rightarrow> (exn + unit) \<times> 'w sys" where
  "time_sleep secs s =
     (case pytime_from_seconds secs of
        Inl e \<Rightarrow> (Inl e, s)
      | Inr timeout \<Rightarrow>
          if timeout < 0 then (Inl (ValueError ''sleep length must be non-negative''), s)
          else
            (case os_sleep s timeout of
               Some e \<Rightarrow> (Inl e, s)
             | None \<Rightarrow> (Inr (), s\<lparr>trace := trace s @ [Sleep secs]\<rparr>)))"

text \<open>The delays with which \<open>time.sleep\<close> returns normally.\<close>

definition sleep_accepts :: "'w sys \<Rightarrow> float64 \<Rightarrow> bool" where
  "sleep_accepts s secs =
     (case pytime_from_seconds secs of
        Inl e \<Rightarrow> False
      | Inr timeout \<Rightarrow> 0 \<le> timeout \<and> os_sleep s timeout = None)"

text \<open>
  Two operating systems for the examples: one that sleeps for any timeout, and one whose
  clock ends \<open>limit\<close> nanoseconds from now.
\<close>

definition sleeps_always :: "int \<Rightarrow> exn option" where
  "sleeps_always timeout = None"

definition clock_ends_after :: "int \<Rightarrow> int \<Rightarrow> exn option" where
  "clock_ends_after limit timeout =
     (if limit \<le> timeout then Some (OSError ''[Errno 22] Invalid argument'') else None)"

section \<open>Formatting\<close>

text \<open>Python's \<open>str\<close> of an integer, as the f-strings of the program print it.\<close>

fun str_nat :: "nat \<Rightarrow> string" where
  "str_nat n =
     (if n < 10 then [''0123456789'' ! n]
      else str_nat (n div 10) @ [''0123456789'' ! (n mod 10)])"

declare str_nat.simps [simp del]

definition str_int :: "int \<Rightarrow> string" where
  "str_int i = (if i < 0 then ''-'' @ str_nat (nat (- i)) else str_nat (nat i))"

section \<open>The retry executor\<close>

text \<open>
  \<open>call_with_retry\<close>, lines 112 to 127. The loop \<open>for attempt in range(1, retries + 1)\<close>
  runs over the list of attempt numbers; \<open>last_error\<close> is the loop's variable. The
  \<open>raise RuntimeError(...) from last_error\<close> after the loop is the equation for the
  exhausted range.
\<close>

fun retry_loop ::
  "('w, 'a) operation \<Rightarrow> int \<Rightarrow> float64 \<Rightarrow> string \<Rightarrow> int list \<Rightarrow> exn option \<Rightarrow> 'w sys
     \<Rightarrow> (exn + 'a) \<times> 'w sys" where
  "retry_loop func retries retry_delay action_name [] last_error s =
     (Inl (RuntimeError
             (action_name @ '' failed after '' @ str_int retries @ '' attempts'')
             last_error), s)"
| "retry_loop func retries retry_delay action_name (attempt # rest) last_error s =
     (case invoke func s of
        (Inr v, s1) \<Rightarrow> (Inr v, s1)
      | (Inl err, s1) \<Rightarrow>
          if is_transient err then
            (let s2 = logging_warning action_name attempt retries err s1 in
             if attempt < retries then
               (case time_sleep retry_delay s2 of
                  (Inl e, s3) \<Rightarrow> (Inl e, s3)
                | (Inr u, s3) \<Rightarrow>
                    retry_loop func retries retry_delay action_name rest (Some err) s3)
             else retry_loop func retries retry_delay action_name rest (Some err) s2)
          else (Inl err, s1))"

definition call_with_retry ::
  "('w, 'a) operation \<Rightarrow> int \<Rightarrow> float64 \<Rightarrow> string \<Rightarrow> 'w sys \<Rightarrow> (exn + 'a) \<times> 'w sys" where
  "call_with_retry func retries retry_delay action_name s =
     retry_loop func retries retry_delay action_name [1..retries] None s"

text \<open>
  The world after \<open>k\<close> invocations of an operation, and what its next invocation
  would do there. They state the hypotheses "the first \<open>k\<close> invocations fail" of the
  properties of the retry executor.
\<close>

definition world_after :: "('w, 'a) operation \<Rightarrow> 'w \<Rightarrow> nat \<Rightarrow> 'w" where
  "world_after func w k = ((\<lambda>w. snd (func w)) ^^ k) w"

definition outcome :: "('w, 'a) operation \<Rightarrow> 'w \<Rightarrow> nat \<Rightarrow> exn + 'a" where
  "outcome func w k = fst (func (world_after func w k))"

definition fails_transiently :: "('w, 'a) operation \<Rightarrow> 'w \<Rightarrow> nat \<Rightarrow> bool" where
  "fails_transiently func w k =
     (case outcome func w k of Inl e \<Rightarrow> is_transient e | Inr v \<Rightarrow> False)"

text \<open>
  The events of one failed attempt, number \<open>a + i\<close>, and of the first \<open>k\<close> failed
  attempts from attempt \<open>a\<close> on: the invocation, the warning, and the sleep when the
  attempt is not the last one.
\<close>

definition failed_attempt ::
  "('w, 'a) operation \<Rightarrow> int \<Rightarrow> float64 \<Rightarrow> string \<Rightarrow> int \<Rightarrow> 'w \<Rightarrow> nat \<Rightarrow> event list" where
  "failed_attempt func retries retry_delay action_name a w i =
     [Invoked, Warning action_name (a + int i) retries (projl (outcome func w i))]
       @ (if a + int i < retries then [Sleep retry_delay] else [])"

definition failed_attempts ::
  "('w, 'a) operation \<Rightarrow> int \<Rightarrow> float64 \<Rightarrow> string \<Rightarrow> int \<Rightarrow> 'w \<Rightarrow> nat \<Rightarrow> event list" where
  "failed_attempts func retries retry_delay action_name a w k =
     concat (map (failed_attempt func retries retry_delay action_name a w) [0..<k])"

text \<open>
  An operation for the examples: it counts its invocations in the world, raises
  \<open>NetworkError\<close> on the first \<open>k\<close> of them and returns 42 afterwards.
\<close>

definition fail_first :: "nat \<Rightarrow> (nat, int) operation" where
  "fail_first k w = (if w < k then Inl (NetworkError ''down'') else Inr 42, Suc w)"

text \<open>An operation that raises \<open>KeyError\<close>, a programming error, once \<open>k\<close> invocations have failed.\<close>

definition fail_then_crash :: "nat \<Rightarrow> (nat, int) operation" where
  "fail_then_crash k w =
     (if w < k then Inl (NetworkError ''down'') else Inl (KeyError ''close''), Suc w)"

section \<open>The exchange and the market validation\<close>

text \<open>
  A candle as ccxt returns it: \<open>[timestamp, open, high, low, close, volume]\<close>, the
  timestamp in milliseconds since the epoch, a Python integer. Prices are Python
  floats.
\<close>

record candle =
  timestamp :: int
  open_price :: float64
  high :: float64
  low :: float64
  close :: float64
  volume :: float64

text \<open>
  The exchange client, as far as the program uses it: \<open>markets\<close> are the keys of
  \<open>exchange.markets\<close> once the markets are loaded, \<open>fetch_ohlcv symbol timeframe limit\<close>
  is the request for candles, an operation on the world.
\<close>

record 'w exchange =
  markets :: "string set"
  fetch_ohlcv :: "string \<Rightarrow> string \<Rightarrow> int \<Rightarrow> ('w, candle list) operation"

text \<open>
  Python's \<open>repr\<close> of a string and of a list of strings, which the f-string of
  \<open>validate_symbols\<close> prints for \<open>{missing}\<close>. A character is its code point, below 256.
\<close>

definition hex2 :: "nat \<Rightarrow> string" where
  "hex2 n = [''0123456789abcdef'' ! (n div 16), ''0123456789abcdef'' ! (n mod 16)]"

definition repr_char :: "char \<Rightarrow> char \<Rightarrow> string" where
  "repr_char quote c =
     (let n = (of_char c :: nat) in
      if c = quote \<or> c = CHR 0x5C then [CHR 0x5C, c]
      else if c = CHR 0x09 then [CHR 0x5C, CHR ''t'']
      else if c = CHR 0x0A then [CHR 0x5C, CHR ''n'']
      else if c = CHR 0x0D then [CHR 0x5C, CHR ''r'']
      else if n < 32 \<or> n = 127 then [CHR 0x5C, CHR ''x''] @ hex2 n
      else if n < 127 then [c]
      else if n \<le> 160 \<or> n = 173 then [CHR 0x5C, CHR ''x''] @ hex2 n
      else [c])"

definition repr_str :: "string \<Rightarrow> string" where
  "repr_str str =
     (let quote = (if CHR 0x27 \<in> set str \<and> CHR 0x22 \<notin> set str then CHR 0x22 else CHR 0x27)
      in quote # concat (map (repr_char quote) str) @ [quote])"

fun join :: "string \<Rightarrow> string list \<Rightarrow> string" where
  "join sep [] = []"
| "join sep [x] = x"
| "join sep (x # y # ys) = x @ sep @ join sep (y # ys)"

definition repr_list :: "string list \<Rightarrow> string" where
  "repr_list xs = ''['' @ join '', '' (map repr_str xs) @ '']''"

text \<open>
  The strings that such a text lists, read back character by character: outside a
  string an opening quote starts one; inside, the same quote ends it and a backslash
  starts an escape, which is \<open>\t\<close>, \<open>\n\<close>, \<open>\r\<close>, \<open>\x\<close> with two hexadecimal
  digits, or the escaped character itself.
\<close>

datatype reading = Outside | Inside char | Escape char | Hex1 char | Hex2 char char

definition hexval :: "char \<Rightarrow> nat" where
  "hexval c = (if of_char c < (58 :: nat) then of_char c - 48 else of_char c - 87)"

fun read_list :: "reading \<Rightarrow> string \<Rightarrow> string list \<Rightarrow> string \<Rightarrow> string list" where
  "read_list mode cur done [] = done"
| "read_list Outside cur done (c # cs) =
     (if c = CHR 0x27 \<or> c = CHR 0x22 then read_list (Inside c) [] done cs
      else read_list Outside cur done cs)"
| "read_list (Inside q) cur done (c # cs) =
     (if c = q then read_list Outside [] (done @ [cur]) cs
      else if c = CHR 0x5C then read_list (Escape q) cur done cs
      else read_list (Inside q) (cur @ [c]) done cs)"
| "read_list (Escape q) cur done (c # cs) =
     (if c = CHR ''x'' then read_list (Hex1 q) cur done cs
      else if c = CHR ''t'' then read_list (Inside q) (cur @ [CHR 0x09]) done cs
      else if c = CHR ''n'' then read_list (Inside q) (cur @ [CHR 0x0A]) done cs
      else if c = CHR ''r'' then read_list (Inside q) (cur @ [CHR 0x0D]) done cs
      else read_list (Inside q) (cur @ [c]) done cs)"
| "read_list (Hex1 q) cur done (c # cs) = read_list (Hex2 q c) cur done cs"
| "read_list (Hex2 q h) cur done (c # cs) =
     read_list (Inside q) (cur @ [char_of (16 * hexval h + hexval c)]) done cs"

definition listed :: "string \<Rightarrow> string list" where
  "listed text = read_list Outside [] [] text"

text \<open>\<open>DEFAULT_SYMBOLS\<close>, lines 25 to 29: alias and ccxt symbol.\<close>

definition DEFAULT_SYMBOLS :: "(string \<times> string) list" where
  "DEFAULT_SYMBOLS =
     [(''XAU'', ''XAU/USDT:USDT''), (''XAUT'', ''XAUT/USDT:USDT''), (''PAXG'', ''PAXG/USDT:USDT'')]"

text \<open>
  A symbol table for the examples whose identifiers hold quotes, a backslash, control
  characters and characters beyond ASCII.
\<close>

definition odd_symbols :: "(string \<times> string) list" where
  "odd_symbols =
     [(''A'', [CHR ''i'', CHR ''t'', CHR 0x27, CHR ''s'']),
      (''B'', [CHR 0x27, CHR 0x22, CHR 0x5C]),
      (''C'', [CHR 0x09, CHR 0x0A, CHR 0x0D, CHR 0x01, CHR 0x1F, CHR 0x7F]),
      (''D'', [CHR 0x80, CHR 0xA0, CHR 0xA1, CHR 0xAD, CHR 0xE9, CHR 0xFF, CHR ''~'', CHR '' ''])]"

text \<open>
  \<open>validate_symbols\<close>, lines 152 to 155. The symbol table is a Python dict, here the
  list of its items in insertion order. The function neither invokes an operation nor
  logs nor sleeps: the state comes back as it went in.
\<close>

definition validate_symbols ::
  "'w exchange \<Rightarrow> (string \<times> string) list \<Rightarrow> 'w sys \<Rightarrow> (exn + unit) \<times> 'w sys" where
  "validate_symbols exchange symbols s =
     (let missing = filter (\<lambda>symbol. symbol \<notin> markets exchange) (map snd symbols) in
      if missing \<noteq> [] then
        (Inl (ValueError
                (''Symbols not available on Bitget swap market: '' @ repr_list missing)), s)
      else (Inr (), s))"

section \<open>The price fetcher\<close>

text \<open>
  A pandas Series: a name and the (index label, value) pairs in their order. The index
  labels of a closing-price series are UTC instants, held as pandas holds them, in
  nanoseconds since the epoch, as a signed 64-bit number; its least value is kept for
  the missing instant. \<open>pd.to_datetime(..., unit="ms", utc=True)\<close> converts a column of
  millisecond timestamps and raises \<open>OutOfBoundsDatetime\<close> when one of them is outside
  that range (the years 1677 to 2262).
\<close>

record series =
  series_name :: string
  items :: "(int \<times> float64) list"

definition timestamps :: "series \<Rightarrow> int list" where
  "timestamps c = map fst (items c)"

definition timestamp_in_range :: "int \<Rightarrow> bool" where
  "timestamp_in_range t = (- (2 ^ 63) < t * 1000000 \<and> t * 1000000 < 2 ^ 63)"

definition to_datetime_ms :: "int \<Rightarrow> int" where
  "to_datetime_ms t = t * 1000000"

definition to_datetime_column :: "int list \<Rightarrow> exn + int list" where
  "to_datetime_column ts =
     (if list_all timestamp_in_range ts then Inr (map to_datetime_ms ts)
      else Inl OutOfBoundsDatetime)"

text \<open>\<open>fetch_close_series\<close>, lines 161 to 197.\<close>

definition fetch_close_series ::
  "'w exchange \<Rightarrow> string \<Rightarrow> string \<Rightarrow> int \<Rightarrow> int \<Rightarrow> float64 \<Rightarrow> 'w sys
     \<Rightarrow> (exn + series) \<times> 'w sys" where
  "fetch_close_series exchange symbol timeframe limit retries retry_delay s =
     (case call_with_retry (fetch_ohlcv exchange symbol timeframe limit) retries retry_delay
             (''fetch_ohlcv('' @ symbol @ '')'') s of
        (Inl e, s') \<Rightarrow> (Inl e, s')
      | (Inr ohlcv, s') \<Rightarrow>
          if ohlcv = [] then (Inl (ValueError (''No OHLCV data returned for '' @ symbol)), s')
          else
            (case to_datetime_column (map timestamp ohlcv) of
               Inl e \<Rightarrow> (Inl e, s')
             | Inr instants \<Rightarrow>
                 (Inr \<lparr>series_name = ''close'', items = zip instants (map close ohlcv)\<rparr>, s')))"

section \<open>The aligned price table\<close>

text \<open>
  A pandas DataFrame: the row index and the columns, each a label with one value per
  row, in their order. The column labels of the tables built here are the aliases of the
  symbol table, keys of a dict, so they are distinct.
\<close>

record dataframe =
  index :: "int list"
  columns :: "(string \<times> float64 list) list"

definition df_empty :: "dataframe \<Rightarrow> bool" where
  "df_empty df = (index df = [] \<or> columns df = [])"

text \<open>
  \<open>pd.concat(series_list, axis=1, join="inner")\<close>. The row index of the result is the
  intersection of the indexes, taken from left to right; \<open>Index.intersection\<close> keeps the
  labels of its left operand that occur in the right one, each once, in the order of
  their first occurrence on the left. Each series is then reindexed to that index, which
  pandas refuses for a series with duplicate labels (the message is that of pandas 1.4
  and later). Every label of the intersection
  occurs in every series, so the lookup of a row's value always finds one. A single series
  is taken as it is, and an empty list is refused.
\<close>

definition unique :: "'a list \<Rightarrow> 'a list" where
  "unique xs = rev (remdups (rev xs))"

definition index_intersection :: "int list \<Rightarrow> int list \<Rightarrow> int list" where
  "index_intersection xs ys = filter (\<lambda>t. t \<in> set ys) (unique xs)"

definition pd_concat_inner :: "series list \<Rightarrow> exn + dataframe" where
  "pd_concat_inner series_list =
     (case series_list of
        [] \<Rightarrow> Inl (ValueError ''No objects to concatenate'')
      | [c] \<Rightarrow> Inr \<lparr>index = timestamps c, columns = [(series_name c, map snd (items c))]\<rparr>
      | c # rest \<Rightarrow>
          if list_all (\<lambda>c. distinct (timestamps c)) series_list then
            (let idx = foldl index_intersection (timestamps c) (map timestamps rest) in
             Inr \<lparr>index = idx,
                  columns = map (\<lambda>c. (series_name c, List.map_filter (map_of (items c)) idx))
                                series_list\<rparr>)
          else Inl (ValueError ''cannot reindex on an axis with duplicate labels''))"

text \<open>
  \<open>build_price_df\<close>, lines 202 to 232: the loop over \<open>symbols.items()\<close> that fetches and
  names each series, then the join and the check of its result.
\<close>

fun fetch_all ::
  "'w exchange \<Rightarrow> string \<Rightarrow> int \<Rightarrow> int \<Rightarrow> float64 \<Rightarrow> (string \<times> string) list \<Rightarrow> series list
     \<Rightarrow> 'w sys \<Rightarrow> (exn + series list) \<times> 'w sys" where
  "fetch_all exchange timeframe limit retries retry_delay [] series_list s =
     (Inr series_list, s)"
| "fetch_all exchange timeframe limit retries retry_delay ((alias, symbol) # rest) series_list s =
     (case fetch_close_series exchange symbol timeframe limit retries retry_delay s of
        (Inl e, s') \<Rightarrow> (Inl e, s')
      | (Inr close_series, s') \<Rightarrow>
          fetch_all exchange timeframe limit retries retry_delay rest
            (series_list @ [close_series\<lparr>series_name := alias\<rparr>]) s')"

definition build_price_df ::
  "'w exchange \<Rightarrow> (string \<times> string) list \<Rightarrow> string \<Rightarrow> int \<Rightarrow> int \<Rightarrow> float64 \<Rightarrow> 'w sys
     \<Rightarrow> (exn + dataframe) \<times> 'w sys" where
  "build_price_df exchange symbols timeframe limit retries retry_delay s =
     (case fetch_all exchange timeframe limit retries retry_delay symbols [] s of
        (Inl e, s') \<Rightarrow> (Inl e, s')
      | (Inr series_list, s') \<Rightarrow>
          (case pd_concat_inner series_list of
             Inl e \<Rightarrow> (Inl e, s')
           | Inr price_df \<Rightarrow>
               if df_empty price_df then
                 (Inl (ValueError
                    ''Joined price dataframe is empty. Check symbols/timeframe/limit.''), s')
               else (Inr price_df, s')))"

text \<open>
  An exchange for the examples: it answers every request for candles from a table,
  without failing. A candle of the examples has the same whole number in all its price
  fields.
\<close>

definition table_exchange :: "string set \<Rightarrow> (string \<Rightarrow> candle list) \<Rightarrow> unit exchange" where
  "table_exchange mk tab =
     \<lparr>markets = mk, fetch_ohlcv = (\<lambda>symbol timeframe limit w. (Inr (tab symbol), w))\<rparr>"

definition flat_candle :: "int \<Rightarrow> int \<Rightarrow> candle" where
  "flat_candle t p =
     \<lparr>timestamp = t, open_price = float_of_int p, high = float_of_int p, low = float_of_int p,
      close = float_of_int p, volume = float_of_int 0\<rparr>"

definition three_series :: "string \<Rightarrow> candle list" where
  "three_series symbol =
     (if symbol = ''X'' then [flat_candle 1 10, flat_candle 2 10, flat_candle 3 10]
      else if symbol = ''Y'' then [flat_candle 2 9, flat_candle 3 9, flat_candle 4 9]
      else if symbol = ''Z'' then [flat_candle 2 11, flat_candle 3 11]
      else [])"

definition disjoint_series :: "string \<Rightarrow> candle list" where
  "disjoint_series symbol =
     (if symbol = ''X'' then [flat_candle 1 10]
      else if symbol = ''Y'' then [flat_candle 2 9]
      else [])"

definition repeated_candles :: "string \<Rightarrow> candle list" where
  "repeated_candles symbol = [flat_candle 2 10, flat_candle 1 11, flat_candle 1 12]"

definition late_candle :: "string \<Rightarrow> candle list" where
  "late_candle symbol = [flat_candle 10000000000000000 10]"

definition unsorted_series :: "string \<Rightarrow> candle list" where
  "unsorted_series symbol =
     (if symbol = ''X'' then [flat_candle 2 10, flat_candle 1 10]
      else [flat_candle 1 9, flat_candle 2 9])"

definition duplicated_series :: "string \<Rightarrow> candle list" where
  "duplicated_series symbol =
     (if symbol = ''X'' then [flat_candle 1 10, flat_candle 1 10]
      else [flat_candle 1 9])"

text \<open>The state in which the examples start: nothing has happened, any sleep is granted.\<close>

definition start :: "'w \<Rightarrow> 'w sys" where
  "start w = \<lparr>world = w, trace = [], os_sleep = sleeps_always\<rparr>"

section \<open>The spreads\<close>

text \<open>
  \<open>add_spreads\<close>, lines 236 to 240, assigns three columns to the table it is given and
  returns that table. A table is a Python object: the heap maps a reference to the table
  it holds, the function takes the reference of its argument and returns a reference.
  \<open>price_df[key]\<close> raises \<open>KeyError\<close> for a missing column; \<open>price_df[key] = col\<close>
  replaces the column of that label where it is, or appends it. The difference of two
  columns of one table is taken row by row, each the difference of two floats.
\<close>

type_synonym ref = nat

type_synonym heap = "ref \<Rightarrow> dataframe"

definition getitem :: "dataframe \<Rightarrow> string \<Rightarrow> exn + float64 list" where
  "getitem df key =
     (case map_of (columns df) key of None \<Rightarrow> Inl (KeyError key) | Some col \<Rightarrow> Inr col)"

definition setitem :: "dataframe \<Rightarrow> string \<Rightarrow> float64 list \<Rightarrow> dataframe" where
  "setitem df key col = df\<lparr>columns := AList.update key col (columns df)\<rparr>"

definition assign_difference ::
  "ref \<Rightarrow> string \<Rightarrow> string \<Rightarrow> string \<Rightarrow> heap \<Rightarrow> (exn + unit) \<times> heap" where
  "assign_difference price_df target a b h =
     (case getitem (h price_df) a of
        Inl e \<Rightarrow> (Inl e, h)
      | Inr col_a \<Rightarrow>
          (case getitem (h price_df) b of
             Inl e \<Rightarrow> (Inl e, h)
           | Inr col_b \<Rightarrow>
               (Inr (),
                h(price_df := setitem (h price_df) target (map2 fsub col_a col_b)))))"

definition add_spreads :: "ref \<Rightarrow> heap \<Rightarrow> (exn + ref) \<times> heap" where
  "add_spreads price_df h =
     (case assign_difference price_df ''XAU_minus_XAUT'' ''XAU'' ''XAUT'' h of
        (Inl e, h1) \<Rightarrow> (Inl e, h1)
      | (Inr u, h1) \<Rightarrow>
          (case assign_difference price_df ''XAU_minus_PAXG'' ''XAU'' ''PAXG'' h1 of
             (Inl e, h2) \<Rightarrow> (Inl e, h2)
           | (Inr u, h2) \<Rightarrow>
               (case assign_difference price_df ''PAXG_minus_XAUT'' ''PAXG'' ''XAUT'' h2 of
                  (Inl e, h3) \<Rightarrow> (Inl e, h3)
                | (Inr u, h3) \<Rightarrow> (Inr price_df, h3))))"

text \<open>
  An aligned table: the three price columns, each with one value per row, and none of
  the three spread columns yet.
\<close>

definition aligned_table :: "dataframe \<Rightarrow> bool" where
  "aligned_table df =
     (distinct (map fst (columns df))
      \<and> list_all (\<lambda>col. length (snd col) = length (index df)) (columns df)
      \<and> list_all (\<lambda>key. key \<in> set (map fst (columns df))) [''XAU'', ''XAUT'', ''PAXG'']
      \<and> list_all (\<lambda>key. key \<notin> set (map fst (columns df)))
           [''XAU_minus_XAUT'', ''XAU_minus_PAXG'', ''PAXG_minus_XAUT''])"

definition column :: "dataframe \<Rightarrow> string \<Rightarrow> float64 list" where
  "column df key = (case map_of (columns df) key of None \<Rightarrow> [] | Some col \<Rightarrow> col)"

definition one_row :: dataframe where
  "one_row = \<lparr>index = [3600000000000],
              columns = [(''XAU'', [float_of_int 100]), (''XAUT'', [float_of_int 99]),
                         (''PAXG'', [float_of_int 101])]\<rparr>"

definition empty_frame :: dataframe where
  "empty_frame = \<lparr>index = [], columns = []\<rparr>"

definition one_table_heap :: heap where
  "one_table_heap = (\<lambda>r. empty_frame)(0 := one_row)"

section \<open>Properties of the floats and of the sleep\<close>

text \<open>Evaluation of \<open>bitlen\<close> on numerals.\<close>

lemma bitlen_numeral [simp]:
  "bitlen 0 = 0"
  "bitlen (Suc 0) = 1"
  "bitlen (numeral Num.One) = 1"
  "bitlen (numeral (Num.Bit0 k)) = Suc (bitlen (numeral k))"
  "bitlen (numeral (Num.Bit1 k)) = Suc (bitlen (numeral k))"
  by (simp_all add: bitlen.simps [of "numeral (Num.Bit0 k)"]
      bitlen.simps [of "numeral (Num.Bit1 k)"] bitlen.simps [of 0] bitlen.simps [of "Suc 0"]
      bitlen.simps [of 1] numeral_Bit0_div_2 numeral_Bit1_div_2)

text \<open>
  Floats of whole numbers, as Python has them: \<open>float(2 ** 53 + 1)\<close> is \<open>2.0 ** 53\<close>
  and \<open>float(2 ** 53 + 3)\<close> is \<open>float(2 ** 53 + 4)\<close>, the ties going to the even
  mantissa.
\<close>

lemma float_of_int_examples:
  "float_of_int 0 = Finite False 0 (- 1074)"
  "float_of_int 1 = Finite False 4503599627370496 (- 52)"
  "float_of_int 2 = Finite False 4503599627370496 (- 51)"
  "float_of_int (- 1) = Finite True 4503599627370496 (- 52)"
  "float_of_int 99 = Finite False 6966505673588736 (- 46)"
  "float_of_int 100 = Finite False 7036874417766400 (- 46)"
  "float_of_int 101 = Finite False 7107243161944064 (- 46)"
  "float_of_int 1000000000 = Finite False 8388608000000000 (- 23)"
  "float_of_int 10000000000 = Finite False 5242880000000000 (- 19)"
  "float_of_int 9223372035 = Finite False 4835703277486080 (- 19)"
  "float_of_int 9223372000 = Finite False 4835703259136000 (- 19)"
  "float_of_int 10000000000000000 = Finite False 5000000000000000 1"
  "float_of_int 9007199254740993 = float_of_int 9007199254740992"
  "float_of_int 9007199254740995 = float_of_int 9007199254740996"
  by (simp_all add: float_of_int_def round_float64_def Let_def)

text \<open>
  Differences of floats, as Python has them: exact where the difference is a float,
  rounded where it is not (\<open>1e16 - 0.5\<close> is \<open>1e16\<close>), and \<open>inf - inf\<close> is NaN.
\<close>

lemma fsub_examples:
  "fsub (float_of_int 100) (float_of_int 99) = float_of_int 1"
  "fsub (float_of_int 100) (float_of_int 101) = float_of_int (- 1)"
  "fsub (float_of_int 101) (float_of_int 99) = float_of_int 2"
  "fsub (float_of_int 10000000000000000) one_half = float_of_int 10000000000000000"
  "fsub (float_of_int 100) (float_of_int 100) = float_of_int 0"
  "fsub (Infinity False) (Infinity False) = NaN"
  by (simp_all add: fsub_def float_of_int_examples one_half_def signed_def
      round_float64_def Let_def)

text \<open>
  The corners of the format, as Python has them: the subnormal numbers, the overflow to
  an infinity, the zero with a sign, the carry out of the mantissa, a tie below 1, and
  differences of numbers that are not whole: \<open>2050.35 - 2049.9\<close> is
  \<open>0.4499999999998181\<close> and \<open>0.3 - 0.1\<close> is \<open>0.19999999999999998\<close>.
\<close>

lemma float_corner_cases:
  "fsub (Finite False 1 (- 1074)) (Finite False 3 (- 1074)) = Finite True 2 (- 1074)"
  "fsub (Finite False 9007199254740991 971) (Finite True 9007199254740991 971) = Infinity False"
  "fmul (Finite False 1 (- 1074)) one_half = Finite False 0 (- 1074)"
  "fmul (Finite False 3 (- 1074)) one_half = Finite False 2 (- 1074)"
  "fmul (Finite False 9007199254740991 971) (float_of_int 2) = Infinity False"
  "fmul (Infinity False) (float_of_int 0) = NaN"
  "fsub (Finite True 0 (- 1074)) (Finite False 0 (- 1074)) = Finite True 0 (- 1074)"
  "float_of_int 18014398509481983 = Finite False 4503599627370496 2"
  "fsub (float_of_int 1) (Finite False 4503599627370496 (- 106)) = float_of_int 1"
  "fsub (float_of_int 1) (Finite False 4503599627370496 (- 105))
     = Finite False 9007199254740991 (- 53)"
  "fsub (Finite False 4508767332021043 (- 41)) (Finite False 4507777771556045 (- 41))
     = Finite False 8106479329263616 (- 54)"
  "fsub (Finite False 5404319552844595 (- 54)) (Finite False 7205759403792794 (- 56))
     = Finite False 7205759403792793 (- 55)"
  by (simp_all add: fsub_def float_of_int_examples one_half_def signed_def
      round_float64_def float_of_int_def Let_def)

text \<open>
  Rounding is to the nearest float. With both numbers counted in the smaller of the two
  units \<open>2 ^ e\<close> and \<open>2 ^ e'\<close>, the float returned for \<open>m * 2 ^ e\<close> differs from it
  by at most half a unit of the float's last place; it is the number itself when the
  last place of the float is not above \<open>e\<close>.
\<close>

lemma nearest_above:
  fixes Q R H W :: int
  assumes "H \<le> R" and "R < W" and "W = 2 * H"
  shows "2 * \<bar>Q + R - (Q + W)\<bar> \<le> W"
  using assms by (simp add: abs_if)

lemma nearest_below:
  fixes Q R H W :: int
  assumes "R \<le> H" and "0 \<le> R" and "W = 2 * H"
  shows "2 * \<bar>Q + R - Q\<bar> \<le> W"
  using assms by (simp add: abs_if)

lemma nearest_wider:
  fixes A W :: int
  assumes "2 * A \<le> W" and "0 \<le> A"
  shows "2 * A \<le> 2 * W"
  using assms by simp

lemma round_float64_nearest:
  assumes "round_float64 sign m e = Finite s' m' e'"
  shows "s' = sign
    \<and> 2 * \<bar>int m * 2 ^ nat (e - min e e') - int m' * 2 ^ nat (e' - min e e')\<bar>
        \<le> 2 ^ nat (e' - min e e')"
proof (cases "m = 0")
  case True
  then show ?thesis using assms by (auto simp: round_float64_def)
next
  case False
  define shift where "shift = max (int (bitlen m) - 53) (- 1074 - e)"
  show ?thesis
  proof (cases "shift \<le> 0")
    case True
    then have res: "s' = sign" "m' = m * 2 ^ nat (- shift)" "e' = e + shift"
      using assms False unfolding round_float64_def Let_def shift_def [symmetric]
      by (auto split: if_splits)
    have "min e e' = e'" using res(3) True by simp
    moreover have "nat (e - e') = nat (- shift)" using res(3) by simp
    ultimately show ?thesis using res by simp
  next
    case pos: False
    define P :: nat where "P = 2 ^ nat shift"
    define q where "q = m div P"
    define r where "r = m mod P"
    define half :: nat where "half = 2 ^ nat (shift - 1)"
    define q' where "q' = (if r > half \<or> (r = half \<and> odd q) then q + 1 else q)"
    have res: "s' = sign"
        "(m' = q' \<and> e' = e + shift) \<or> (m' = 2 ^ 52 \<and> e' = e + shift + 1 \<and> q' = 2 ^ 53)"
      using assms False pos
      unfolding round_float64_def Let_def shift_def [symmetric] P_def [symmetric]
        half_def [symmetric] q_def [symmetric] r_def [symmetric] q'_def [symmetric]
      by (auto split: if_splits)
    have "nat shift = Suc (nat (shift - 1))" using pos by simp
    then have P: "P = 2 * half" unfolding P_def half_def by simp
    have m: "m = q * P + r" unfolding q_def r_def by simp
    have r: "r < P" unfolding r_def P_def by simp
    have mi: "int m = int (q * P) + int r" by (subst m) simp
    have ri: "int r < int P" using r by simp
    have Pi: "int P = 2 * int half" using P by simp
    have near: "2 * \<bar>int m - int q' * int P\<bar> \<le> int P"
    proof (cases "r > half \<or> (r = half \<and> odd q)")
      case True
      then have "q' = q + 1" by (simp add: q'_def)
      then have up: "int q' * int P = int (q * P) + int P" by (simp add: algebra_simps)
      have "int half \<le> int r" using True by auto
      then show ?thesis unfolding up mi using ri Pi by (rule nearest_above)
    next
      case False
      then have "q' = q" by (simp add: q'_def)
      then have down: "int q' * int P = int (q * P)" by simp
      have "int r \<le> int half" using False by auto
      then show ?thesis unfolding down mi using Pi by (rule nearest_below [OF _ of_nat_0_le_iff])
    qed
    from res(2) show ?thesis
    proof
      assume a: "m' = q' \<and> e' = e + shift"
      then have "min e e' = e" using pos by simp
      moreover have "nat (e' - e) = nat shift" using a by simp
      ultimately show ?thesis using near res(1) a by (simp add: P_def)
    next
      assume a: "m' = 2 ^ 52 \<and> e' = e + shift + 1 \<and> q' = 2 ^ 53"
      then have lo: "min e e' = e" using pos by simp
      have sh: "nat (e' - e) = Suc (nat shift)" using a pos by simp
      have v: "int m' * 2 ^ Suc (nat shift) = int q' * int P" using a by (simp add: P_def)
      have "2 * \<bar>int m - int q' * int P\<bar> \<le> 2 * int P"
        by (rule nearest_wider [OF near abs_ge_zero])
      then show ?thesis using res(1) unfolding lo sh v by (simp add: P_def)
    qed
  qed
qed

text \<open>
  Hence the difference of two finite floats, when it is finite, is their exact difference
  rounded: the two differ by at most half a unit of the last place of the result.
\<close>

lemma fsub_nearest:
  assumes "fsub (Finite s1 m1 e1) (Finite s2 m2 e2) = Finite s m e"
  shows "2 * \<bar>(signed s1 m1 * 2 ^ nat (e1 - min e1 e2) - signed s2 m2 * 2 ^ nat (e2 - min e1 e2))
               * 2 ^ nat (min e1 e2 - min (min e1 e2) e)
             - signed s m * 2 ^ nat (e - min (min e1 e2) e)\<bar>
           \<le> 2 ^ nat (e - min (min e1 e2) e)"
proof -
  define e0 where "e0 = min e1 e2"
  define d where "d = signed s1 m1 * 2 ^ nat (e1 - e0) - signed s2 m2 * 2 ^ nat (e2 - e0)"
  have neg: "signed (\<not> s2) m2 = - signed s2 m2" by (simp add: signed_def)
  have sum: "signed s1 m1 * 2 ^ nat (e1 - e0) + signed (\<not> s2) m2 * 2 ^ nat (e2 - e0) = d"
    unfolding neg d_def by simp
  have res: "(if d = 0 then Finite (s1 \<and> \<not> s2) 0 (- 1074)
              else round_float64 (d < 0) (nat \<bar>d\<bar>) e0) = Finite s m e"
    using assms unfolding fsub_def fneg.simps fadd.simps Let_def e0_def [symmetric] sum .
  have "2 * \<bar>d * 2 ^ nat (e0 - min e0 e) - signed s m * 2 ^ nat (e - min e0 e)\<bar>
           \<le> 2 ^ nat (e - min e0 e)"
  proof (cases "d = 0")
    case True
    then have "m = 0" using res by simp
    then show ?thesis using True by (simp add: signed_def)
  next
    case False
    then have "round_float64 (d < 0) (nat \<bar>d\<bar>) e0 = Finite s m e" using res by simp
    from round_float64_nearest [OF this]
    have s: "s = (d < 0)"
      and n: "2 * \<bar>int (nat \<bar>d\<bar>) * 2 ^ nat (e0 - min e0 e) - int m * 2 ^ nat (e - min e0 e)\<bar>
                \<le> 2 ^ nat (e - min e0 e)"
      by simp_all
    show ?thesis
    proof (cases "d < 0")
      case True
      then have "d * 2 ^ nat (e0 - min e0 e) - signed s m * 2 ^ nat (e - min e0 e)
          = - (int (nat \<bar>d\<bar>) * 2 ^ nat (e0 - min e0 e) - int m * 2 ^ nat (e - min e0 e))"
        using s by (simp add: signed_def algebra_simps)
      then have "\<bar>d * 2 ^ nat (e0 - min e0 e) - signed s m * 2 ^ nat (e - min e0 e)\<bar>
          = \<bar>int (nat \<bar>d\<bar>) * 2 ^ nat (e0 - min e0 e) - int m * 2 ^ nat (e - min e0 e)\<bar>"
        by (simp only: abs_minus_cancel)
      then show ?thesis using n by (simp only:)
    next
      case False
      then have "d * 2 ^ nat (e0 - min e0 e) - signed s m * 2 ^ nat (e - min e0 e)
          = int (nat \<bar>d\<bar>) * 2 ^ nat (e0 - min e0 e) - int m * 2 ^ nat (e - min e0 e)"
        using s by (simp add: signed_def)
      then show ?thesis using n by simp
    qed
  qed
  then show ?thesis unfolding d_def e0_def .
qed

text \<open>The timeouts of \<open>time.sleep\<close> for some delays.\<close>

lemma pytime_examples:
  "pytime_from_seconds (float_of_int 2) = Inr 2000000000"
  "pytime_from_seconds (float_of_int (- 1)) = Inr (- 1000000000)"
  "pytime_from_seconds (float_of_int 10000000000) =
     Inl (OverflowError ''timestamp out of range for platform time_t'')"
  "pytime_from_seconds (float_of_int 9223372035) = Inr 9223372035000000512"
  "pytime_from_seconds (float_of_int 9223372000) = Inr 9223372000000000000"
  "pytime_from_seconds one_half = Inr 500000000"
  "pytime_from_seconds (Infinity False) =
     Inl (OverflowError ''timestamp out of range for platform time_t'')"
  "pytime_from_seconds NaN = Inl (ValueError ''Invalid value NaN (not a number)'')"
  by (simp_all add: pytime_from_seconds_def float_of_int_examples one_half_def
      round_float64_def Let_def)

lemma sleep_accepts_two:
  "sleep_accepts s (float_of_int 2) = (os_sleep s 2000000000 = None)"
  by (simp add: sleep_accepts_def pytime_examples)

section \<open>Properties of the retry executor\<close>

lemma world_after_0: "world_after func w 0 = w"
  by (simp add: world_after_def)

lemma world_after_Suc: "world_after func w (Suc k) = snd (func (world_after func w k))"
  by (simp add: world_after_def)

lemma failed_attempts_0: "failed_attempts func r d n a w 0 = []"
  by (simp add: failed_attempts_def)

lemma failed_attempts_Suc:
  "failed_attempts func r d n a w (Suc k) =
     failed_attempts func r d n a w k @ failed_attempt func r d n a w k"
  by (simp add: failed_attempts_def)

lemma retry_loop_success:
  assumes "func (world s) = (Inr v, w')"
  shows "retry_loop func r d n (a # rest) le s =
           (Inr v, s\<lparr>world := w', trace := trace s @ [Invoked]\<rparr>)"
  using assms by (simp add: invoke_def)

lemma retry_loop_fatal:
  assumes "func (world s) = (Inl e, w')" and "\<not> is_transient e"
  shows "retry_loop func r d n (a # rest) le s =
           (Inl e, s\<lparr>world := w', trace := trace s @ [Invoked]\<rparr>)"
  using assms by (simp add: invoke_def)

lemma retry_loop_transient:
  assumes "func (world s) = (Inl e, w')" and "is_transient e" and "a < r \<longrightarrow> sleep_accepts s d"
  shows "retry_loop func r d n (a # rest) le s =
           retry_loop func r d n rest (Some e)
             (s\<lparr>world := w',
                trace := trace s @ [Invoked, Warning n a r e] @ (if a < r then [Sleep d] else [])\<rparr>)"
  using assms
  by (auto simp: invoke_def logging_warning_def time_sleep_def sleep_accepts_def Let_def
      split: sum.splits option.splits)

lemma retry_loop_sleep_raises:
  assumes "func (world s) = (Inl e, w')" and "is_transient e" and "a < r"
    and "time_sleep d (s\<lparr>world := w', trace := trace s @ [Invoked, Warning n a r e]\<rparr>)
           = (Inl err, s')"
  shows "retry_loop func r d n (a # rest) le s = (Inl err, s')"
  using assms by (simp add: invoke_def logging_warning_def Let_def)

lemma retry_loop_failures:
  assumes "\<forall>i<k. fails_transiently func (world s) i"
    and "a + int k \<le> r + 1"
    and "sleep_accepts s d \<or> k = 0 \<or> r \<le> a"
  shows "retry_loop func r d n [a..r] le s =
           retry_loop func r d n [a + int k..r]
             (if k = 0 then le else Some (projl (outcome func (world s) (k - 1))))
             (s\<lparr>world := world_after func (world s) k,
                trace := trace s @ failed_attempts func r d n a (world s) k\<rparr>)"
  using assms
proof (induction k)
  case 0
  show ?case by (simp add: world_after_0 failed_attempts_0)
next
  case (Suc k)
  let ?w = "world_after func (world s) k"
  let ?s = "s\<lparr>world := ?w, trace := trace s @ failed_attempts func r d n a (world s) k\<rparr>"
  have sleep_ok: "sleep_accepts s d \<or> r \<le> a" using Suc.prems(3) by simp
  have IH: "retry_loop func r d n [a..r] le s =
           retry_loop func r d n [a + int k..r]
             (if k = 0 then le else Some (projl (outcome func (world s) (k - 1)))) ?s"
    using Suc by auto
  have "fails_transiently func (world s) k" using Suc.prems(1) by simp
  then obtain e where e: "outcome func (world s) k = Inl e" "is_transient e"
    by (auto simp: fails_transiently_def split: sum.splits)
  then have f: "func (world ?s) = (Inl e, world_after func (world s) (Suc k))"
    by (simp add: outcome_def world_after_Suc prod_eq_iff)
  have le: "a + int k \<le> r" using Suc.prems(2) by simp
  have nxt: "a + int k + 1 = a + int (Suc k)" by simp
  have up: "[a + int k..r] = (a + int k) # [a + int (Suc k)..r]"
    using upto_rec1 [OF le] unfolding nxt .
  have d: "a + int k < r \<longrightarrow> sleep_accepts ?s d"
    using sleep_ok by (auto simp: sleep_accepts_def split: sum.splits)
  show ?case
    unfolding IH up
    by (subst retry_loop_transient [where func = func and s = ?s, OF f e(2) d])
       (simp add: failed_attempts_Suc failed_attempt_def e(1))
qed

lemma warnings_failed_attempts:
  "length (filter is_Warning (failed_attempts func r d n a w k)) = k"
  by (induction k) (simp_all add: failed_attempts_0 failed_attempts_Suc failed_attempt_def)

lemma invocations_failed_attempts:
  "length (filter is_Invoked (failed_attempts func r d n a w k)) = k"
  by (induction k) (simp_all add: failed_attempts_0 failed_attempts_Suc failed_attempt_def)

lemma sleeps_failed_attempts:
  "filter is_Sleep (failed_attempts func r d n 1 w k) = replicate (min k (nat (r - 1))) (Sleep d)"
proof (induction k)
  case 0
  show ?case by (simp add: failed_attempts_0)
next
  case (Suc k)
  show ?case
  proof (cases "1 + int k < r")
    case True
    then have "min (Suc k) (nat (r - 1)) = Suc k" "min k (nat (r - 1)) = k" by auto
    with True Suc show ?thesis
      by (simp add: failed_attempts_Suc failed_attempt_def replicate_append_same)
  next
    case False
    then have "min (Suc k) (nat (r - 1)) = min k (nat (r - 1))" by auto
    with False Suc show ?thesis
      by (simp add: failed_attempts_Suc failed_attempt_def)
  qed
qed

lemma last_failed_attempts:
  "last (failed_attempts func (int (Suc k)) d n 1 w (Suc k)) =
     Warning n (int (Suc k)) (int (Suc k)) (projl (outcome func w k))"
  by (simp add: failed_attempts_Suc failed_attempt_def)

lemma world_after_fail_first: "world_after (fail_first k) w i = w + i"
  by (induction i) (simp_all add: world_after_0 world_after_Suc fail_first_def)

lemma outcome_fail_first:
  "outcome (fail_first k) w i = (if w + i < k then Inl (NetworkError ''down'') else Inr 42)"
  by (simp add: outcome_def world_after_fail_first fail_first_def)

lemma fails_fail_first: "fails_transiently (fail_first k) w i = (w + i < k)"
  by (simp add: fails_transiently_def outcome_fail_first)

text \<open>
  C1 (as amended). For every \<open>N \<ge> 1\<close>, every retry delay with which \<open>time.sleep\<close>
  returns normally (a number that is not negative, of fewer than \<open>2 ^ 63\<close> nanoseconds,
  which the operating system takes; any delay when \<open>N = 1\<close>) and every operation that
  raises a transient error on each of its first
  \<open>N - 1\<close> invocations and succeeds on the \<open>N\<close>-th, \<open>call_with_retry\<close> with
  \<open>retries = N\<close> returns the result of the \<open>N\<close>-th invocation, not an aggregated
  failure; it logs exactly \<open>N - 1\<close> warnings and invokes the operation exactly \<open>N\<close>
  times, the successful invocation being the last event.
\<close>

theorem retry_succeeds_on_last_attempt:
  assumes "1 \<le> N"
    and "\<forall>i<N - 1. fails_transiently func (world s) i"
    and "outcome func (world s) (N - 1) = Inr v"
    and "sleep_accepts s retry_delay \<or> N = 1"
  shows "call_with_retry func (int N) retry_delay action_name s =
           (Inr v, s\<lparr>world := world_after func (world s) N,
                     trace := trace s
                       @ failed_attempts func (int N) retry_delay action_name 1 (world s) (N - 1)
                       @ [Invoked]\<rparr>)
         \<and> length (filter is_Warning
              (trace (snd (call_with_retry func (int N) retry_delay action_name s))))
             = length (filter is_Warning (trace s)) + (N - 1)
         \<and> length (filter is_Invoked
              (trace (snd (call_with_retry func (int N) retry_delay action_name s))))
             = length (filter is_Invoked (trace s)) + N
         \<and> last (trace (snd (call_with_retry func (int N) retry_delay action_name s))) = Invoked"
proof -
  let ?k = "N - 1"
  let ?s = "s\<lparr>world := world_after func (world s) ?k,
               trace := trace s @ failed_attempts func (int N) retry_delay action_name 1 (world s) ?k\<rparr>"
  have N: "1 + int ?k = int N" using assms(1) by simp
  have delay: "sleep_accepts s retry_delay \<or> ?k = 0 \<or> int N \<le> 1" using assms(4) by auto
  have bound: "1 + int ?k \<le> int N + 1" using N by simp
  have loop: "call_with_retry func (int N) retry_delay action_name s =
      retry_loop func (int N) retry_delay action_name [int N..int N]
        (if ?k = 0 then None else Some (projl (outcome func (world s) (?k - 1)))) ?s"
    unfolding call_with_retry_def
    using retry_loop_failures [where func = func and s = s and k = ?k and a = 1 and r = "int N",
        OF assms(2) bound delay]
    unfolding N .
  have f: "func (world ?s) = (Inr v, world_after func (world s) N)"
    using assms(1,3) by (simp add: outcome_def world_after_Suc [symmetric] prod_eq_iff)
  have single: "[int N..int N] = [int N]" by (simp add: upto_rec1)
  have result: "call_with_retry func (int N) retry_delay action_name s =
           (Inr v, s\<lparr>world := world_after func (world s) N,
                     trace := trace s
                       @ failed_attempts func (int N) retry_delay action_name 1 (world s) (N - 1)
                       @ [Invoked]\<rparr>)"
    unfolding loop single
    by (subst retry_loop_success [where func = func and s = ?s, OF f]) simp
  show ?thesis
    unfolding result using assms(1)
    by (simp add: warnings_failed_attempts invocations_failed_attempts)
qed

text \<open>Two failures, then success at the third of three attempts, with a delay of 2 seconds.\<close>

theorem retry_succeeds_on_last_attempt_witness:
  "call_with_retry (fail_first 2) 3 (float_of_int 2) ''op'' (start 0) =
     (Inr 42,
      \<lparr>world = 3,
       trace = [Invoked, Warning ''op'' 1 3 (NetworkError ''down''), Sleep (float_of_int 2),
                Invoked, Warning ''op'' 2 3 (NetworkError ''down''), Sleep (float_of_int 2),
                Invoked],
       os_sleep = sleeps_always\<rparr>)"
  using retry_succeeds_on_last_attempt
    [where N = 3 and func = "fail_first 2" and s = "start 0" and v = 42
       and retry_delay = "float_of_int 2" and action_name = "''op''"]
  by (simp add: fails_fail_first outcome_fail_first world_after_fail_first
      failed_attempts_def failed_attempt_def upt_rec sleep_accepts_two start_def sleeps_always_def)

text \<open>
  C1 as stated fails for a delay that \<open>time.sleep\<close> refuses. The operation fails once
  and would succeed at the second invocation, but the sleep after the first warning
  raises, and its exception leaves \<open>call_with_retry\<close> before any second invocation:
  \<open>ValueError\<close> for a delay of \<open>-1\<close>, \<open>OverflowError\<close> for a delay of \<open>1e10\<close>
  seconds, and \<open>OSError\<close> for a delay of 9223372000 seconds on a system whose clock ends
  before that.
\<close>

theorem retry_refused_delay_counterexample:
  "fails_transiently (fail_first 1) 0 0
   \<and> outcome (fail_first 1) 0 1 = Inr 42
   \<and> call_with_retry (fail_first 1) 2 (float_of_int (- 1)) ''op'' (start 0) =
       (Inl (ValueError ''sleep length must be non-negative''),
        \<lparr>world = 1, trace = [Invoked, Warning ''op'' 1 2 (NetworkError ''down'')],
         os_sleep = sleeps_always\<rparr>)
   \<and> call_with_retry (fail_first 1) 2 (float_of_int 10000000000) ''op'' (start 0) =
       (Inl (OverflowError ''timestamp out of range for platform time_t''),
        \<lparr>world = 1, trace = [Invoked, Warning ''op'' 1 2 (NetworkError ''down'')],
         os_sleep = sleeps_always\<rparr>)
   \<and> call_with_retry (fail_first 1) 2 (float_of_int 9223372000) ''op''
         \<lparr>world = 0, trace = [], os_sleep = clock_ends_after 9223360000000000000\<rparr> =
       (Inl (OSError ''[Errno 22] Invalid argument''),
        \<lparr>world = 1, trace = [Invoked, Warning ''op'' 1 2 (NetworkError ''down'')],
         os_sleep = clock_ends_after 9223360000000000000\<rparr>)"
  by (simp add: fails_fail_first outcome_fail_first call_with_retry_def invoke_def
      fail_first_def logging_warning_def time_sleep_def upto.simps pytime_examples
      clock_ends_after_def sleeps_always_def start_def)

text \<open>
  C2 (as amended). For every \<open>N \<ge> 1\<close>, every retry delay with which \<open>time.sleep\<close>
  returns normally (a number that is not negative, of fewer than \<open>2 ^ 63\<close> nanoseconds,
  which the operating system takes; any delay when \<open>N = 1\<close>) and every operation that
  raises a transient error on all of its first
  \<open>N\<close> invocations, \<open>call_with_retry\<close> with \<open>retries = N\<close> raises one aggregated
  failure, a \<open>RuntimeError\<close> whose message is the label, \<open>failed after\<close>, the attempt
  count and \<open>attempts\<close>, and whose cause is the error of the last invocation. It invokes
  the operation \<open>N\<close> times, logs \<open>N\<close> warnings and sleeps for the configured delay
  exactly \<open>N - 1\<close> times; the last event is the warning of attempt \<open>N\<close>, so there is
  no sleep after the final attempt.
\<close>

theorem retry_exhausted:
  assumes "1 \<le> N"
    and "\<forall>i<N. fails_transiently func (world s) i"
    and "sleep_accepts s retry_delay \<or> N = 1"
  shows "call_with_retry func (int N) retry_delay action_name s =
           (Inl (RuntimeError
                   (action_name @ '' failed after '' @ str_int (int N) @ '' attempts'')
                   (Some (projl (outcome func (world s) (N - 1))))),
            s\<lparr>world := world_after func (world s) N,
              trace := trace s
                @ failed_attempts func (int N) retry_delay action_name 1 (world s) N\<rparr>)
         \<and> filter is_Sleep
              (trace (snd (call_with_retry func (int N) retry_delay action_name s)))
             = filter is_Sleep (trace s) @ replicate (N - 1) (Sleep retry_delay)
         \<and> last (trace (snd (call_with_retry func (int N) retry_delay action_name s)))
             = Warning action_name (int N) (int N) (projl (outcome func (world s) (N - 1)))
         \<and> length (filter is_Invoked
              (trace (snd (call_with_retry func (int N) retry_delay action_name s))))
             = length (filter is_Invoked (trace s)) + N
         \<and> length (filter is_Warning
              (trace (snd (call_with_retry func (int N) retry_delay action_name s))))
             = length (filter is_Warning (trace s)) + N"
proof -
  obtain k where k: "N = Suc k" using assms(1) by (cases N) auto
  have delay: "sleep_accepts s retry_delay \<or> N = 0 \<or> int N \<le> 1" using assms(3) by auto
  have bound: "1 + int N \<le> int N + 1" by simp
  have empty: "[1 + int N..int N] = []" by simp
  have loop: "call_with_retry func (int N) retry_delay action_name s =
      retry_loop func (int N) retry_delay action_name []
        (if N = 0 then None else Some (projl (outcome func (world s) (N - 1))))
        (s\<lparr>world := world_after func (world s) N,
           trace := trace s @ failed_attempts func (int N) retry_delay action_name 1 (world s) N\<rparr>)"
    unfolding call_with_retry_def
    using retry_loop_failures [where func = func and s = s and k = N and a = 1 and r = "int N",
        OF assms(2) bound delay]
    unfolding empty .
  have result: "call_with_retry func (int N) retry_delay action_name s =
           (Inl (RuntimeError
                   (action_name @ '' failed after '' @ str_int (int N) @ '' attempts'')
                   (Some (projl (outcome func (world s) (N - 1))))),
            s\<lparr>world := world_after func (world s) N,
              trace := trace s
                @ failed_attempts func (int N) retry_delay action_name 1 (world s) N\<rparr>)"
    unfolding loop using assms(1) by simp
  have sleeps: "min N (nat (int N - 1)) = N - 1" by simp
  have nonempty: "failed_attempts func (int N) retry_delay action_name 1 (world s) N \<noteq> []"
    unfolding k by (simp add: failed_attempts_Suc failed_attempt_def)
  have final: "last (failed_attempts func (int N) retry_delay action_name 1 (world s) N)
      = Warning action_name (int N) (int N) (projl (outcome func (world s) (N - 1)))"
    using last_failed_attempts
      [where k = k and d = retry_delay and n = action_name and func = func and w = "world s"]
    by (simp add: k)
  show ?thesis
    unfolding result
    by (simp add: sleeps_failed_attempts invocations_failed_attempts warnings_failed_attempts
        sleeps nonempty final)
qed

text \<open>
  Three attempts that all fail, with a delay of 2 seconds.
\<close>

theorem retry_exhausted_witness:
  "call_with_retry (fail_first 5) 3 (float_of_int 2) ''op'' (start 0) =
     (Inl (RuntimeError ''op failed after 3 attempts'' (Some (NetworkError ''down''))),
      \<lparr>world = 3,
       trace = [Invoked, Warning ''op'' 1 3 (NetworkError ''down''), Sleep (float_of_int 2),
                Invoked, Warning ''op'' 2 3 (NetworkError ''down''), Sleep (float_of_int 2),
                Invoked, Warning ''op'' 3 3 (NetworkError ''down'')],
       os_sleep = sleeps_always\<rparr>)"
  using retry_exhausted
    [where N = 3 and func = "fail_first 5" and s = "start 0"
       and retry_delay = "float_of_int 2" and action_name = "''op''"]
  by (simp add: fails_fail_first outcome_fail_first world_after_fail_first
      failed_attempts_def failed_attempt_def upt_rec str_int_def str_nat.simps
      sleep_accepts_two start_def sleeps_always_def)

text \<open>
  C2 as stated fails for a delay that \<open>time.sleep\<close> refuses. Both invocations would
  fail, but with \<open>retries = 2\<close> the sleep after the first warning raises, and its
  exception leaves \<open>call_with_retry\<close>: there is no aggregated failure and no sleep.
  The exception is \<open>ValueError\<close> for a delay of \<open>-1\<close>, \<open>OverflowError\<close> for a delay
  of \<open>1e10\<close> seconds, and \<open>OSError\<close> for a delay of 9223372000 seconds on a system
  whose clock ends before that.
\<close>

theorem retry_exhausted_refused_delay_counterexample:
  "fails_transiently (fail_first 5) 0 0
   \<and> fails_transiently (fail_first 5) 0 1
   \<and> call_with_retry (fail_first 5) 2 (float_of_int (- 1)) ''op'' (start 0) =
       (Inl (ValueError ''sleep length must be non-negative''),
        \<lparr>world = 1, trace = [Invoked, Warning ''op'' 1 2 (NetworkError ''down'')],
         os_sleep = sleeps_always\<rparr>)
   \<and> call_with_retry (fail_first 5) 2 (float_of_int 10000000000) ''op'' (start 0) =
       (Inl (OverflowError ''timestamp out of range for platform time_t''),
        \<lparr>world = 1, trace = [Invoked, Warning ''op'' 1 2 (NetworkError ''down'')],
         os_sleep = sleeps_always\<rparr>)
   \<and> call_with_retry (fail_first 5) 2 (float_of_int 9223372000) ''op''
         \<lparr>world = 0, trace = [], os_sleep = clock_ends_after 9223360000000000000\<rparr> =
       (Inl (OSError ''[Errno 22] Invalid argument''),
        \<lparr>world = 1, trace = [Invoked, Warning ''op'' 1 2 (NetworkError ''down'')],
         os_sleep = clock_ends_after 9223360000000000000\<rparr>)"
  by (simp add: fails_fail_first call_with_retry_def invoke_def
      fail_first_def logging_warning_def time_sleep_def upto.simps pytime_examples
      clock_ends_after_def sleeps_always_def start_def)

lemma world_after_fail_then_crash: "world_after (fail_then_crash k) w i = w + i"
  by (induction i) (simp_all add: world_after_0 world_after_Suc fail_then_crash_def)

lemma outcome_fail_then_crash:
  "outcome (fail_then_crash k) w i =
     (if w + i < k then Inl (NetworkError ''down'') else Inl (KeyError ''close''))"
  by (simp add: outcome_def world_after_fail_then_crash fail_then_crash_def)

lemma fails_fail_then_crash: "fails_transiently (fail_then_crash k) w i = (w + i < k)"
  by (simp add: fails_transiently_def outcome_fail_then_crash)

text \<open>
  C7. When an invocation of the operation raises an error that is not one of the three
  transient classes, \<open>call_with_retry\<close> ends with that very error. First for the loop
  of \<open>call_with_retry\<close> at any attempt, whatever came before: the attempt in which the
  error occurs adds the invocation to the trace and nothing else, no warning, no sleep,
  no further invocation, and the result is the error itself, not the aggregated failure.
  Then for the whole call: when invocation number \<open>k + 1\<close> raises the error after \<open>k\<close>
  transient failures (\<open>k = 0\<close> for the first attempt; the sleeps between the \<open>k\<close>
  failures need a delay with which \<open>time.sleep\<close> returns normally), the trace holds the events of these \<open>k\<close>
  failed attempts and then the one invocation.
\<close>

theorem retry_propagates_other_errors:
  "(func (world s) = (Inl err, w') \<and> \<not> is_transient err
      \<longrightarrow> retry_loop func retries retry_delay action_name (attempt # rest) last_error s
            = (Inl err, s\<lparr>world := w', trace := trace s @ [Invoked]\<rparr>))
   \<and> (int k < retries \<and> (\<forall>i<k. fails_transiently func (world s) i)
        \<and> outcome func (world s) k = Inl err \<and> \<not> is_transient err
        \<and> (sleep_accepts s retry_delay \<or> k = 0)
      \<longrightarrow> call_with_retry func retries retry_delay action_name s
            = (Inl err,
               s\<lparr>world := world_after func (world s) (Suc k),
                 trace := trace s
                   @ failed_attempts func retries retry_delay action_name 1 (world s) k
                   @ [Invoked]\<rparr>))"
proof (intro conjI impI)
  assume "func (world s) = (Inl err, w') \<and> \<not> is_transient err"
  then show "retry_loop func retries retry_delay action_name (attempt # rest) last_error s
            = (Inl err, s\<lparr>world := w', trace := trace s @ [Invoked]\<rparr>)"
    using retry_loop_fatal [where func = func and s = s] by blast
next
  assume a: "int k < retries \<and> (\<forall>i<k. fails_transiently func (world s) i)
        \<and> outcome func (world s) k = Inl err \<and> \<not> is_transient err
        \<and> (sleep_accepts s retry_delay \<or> k = 0)"
  let ?s = "s\<lparr>world := world_after func (world s) k,
               trace := trace s @ failed_attempts func retries retry_delay action_name 1 (world s) k\<rparr>"
  have fails: "\<forall>i<k. fails_transiently func (world s) i" using a by blast
  have fatal: "\<not> is_transient err" using a by blast
  have delay: "sleep_accepts s retry_delay \<or> k = 0 \<or> retries \<le> 1" using a by auto
  have bound: "1 + int k \<le> retries + 1" using a by simp
  have le: "1 + int k \<le> retries" using a by simp
  have loop: "call_with_retry func retries retry_delay action_name s =
      retry_loop func retries retry_delay action_name [1 + int k..retries]
        (if k = 0 then None else Some (projl (outcome func (world s) (k - 1)))) ?s"
    unfolding call_with_retry_def
    using retry_loop_failures [where func = func and s = s and k = k and a = 1 and r = retries,
        OF fails bound delay] .
  have f: "func (world ?s) = (Inl err, world_after func (world s) (Suc k))"
    using a by (simp add: outcome_def world_after_Suc prod_eq_iff)
  show "call_with_retry func retries retry_delay action_name s
            = (Inl err,
               s\<lparr>world := world_after func (world s) (Suc k),
                 trace := trace s
                   @ failed_attempts func retries retry_delay action_name 1 (world s) k
                   @ [Invoked]\<rparr>)"
    unfolding loop upto_rec1 [OF le]
    by (subst retry_loop_fatal [where func = func and s = ?s, OF f fatal]) simp
qed

text \<open>
  A \<open>KeyError\<close> at the second attempt, after one transient failure, and a \<open>KeyError\<close>
  at the first attempt.
\<close>

theorem retry_propagates_other_errors_witness:
  "call_with_retry (fail_then_crash 1) 3 (float_of_int 2) ''op'' (start 0) =
     (Inl (KeyError ''close''),
      \<lparr>world = 2,
       trace = [Invoked, Warning ''op'' 1 3 (NetworkError ''down''), Sleep (float_of_int 2),
                Invoked],
       os_sleep = sleeps_always\<rparr>)
   \<and> call_with_retry (fail_then_crash 0) 3 (float_of_int (- 1)) ''op'' (start 0) =
     (Inl (KeyError ''close''), \<lparr>world = 1, trace = [Invoked], os_sleep = sleeps_always\<rparr>)
   \<and> retry_loop (fail_then_crash 0) 3 (float_of_int (- 1)) ''op'' [2, 3]
       (Some (NetworkError ''down'')) (start 5) =
     (Inl (KeyError ''close''), \<lparr>world = 6, trace = [Invoked], os_sleep = sleeps_always\<rparr>)"
  using retry_propagates_other_errors
    [where k = 1 and retries = 3 and func = "fail_then_crash 1"
       and s = "start 0" and err = "KeyError ''close''" and retry_delay = "float_of_int 2"
       and action_name = "''op''"]
    retry_propagates_other_errors
    [where k = 0 and retries = 3 and func = "fail_then_crash 0"
       and s = "start 0" and err = "KeyError ''close''"
       and retry_delay = "float_of_int (- 1)" and action_name = "''op''"]
    retry_propagates_other_errors
    [where func = "fail_then_crash 0" and s = "start 5"
       and err = "KeyError ''close''" and w' = 6 and retries = 3
       and retry_delay = "float_of_int (- 1)"
       and action_name = "''op''" and attempt = 2 and rest = "[3]"
       and last_error = "Some (NetworkError ''down'')"]
  by (simp add: fails_fail_then_crash outcome_fail_then_crash world_after_fail_then_crash
      failed_attempts_def failed_attempt_def upt_rec fail_then_crash_def sleep_accepts_two
      start_def sleeps_always_def)

text \<open>
  C10. For \<open>retries \<le> 0\<close> the range of attempts is empty: \<open>call_with_retry\<close> raises
  the aggregated failure with no cause attached, and the state is the one it started in;
  the operation is not invoked, nothing is logged and there is no sleep.
\<close>

theorem retry_without_attempts:
  assumes "retries \<le> 0"
  shows "call_with_retry func retries retry_delay action_name s =
           (Inl (RuntimeError
                   (action_name @ '' failed after '' @ str_int retries @ '' attempts'') None), s)"
  using assms by (simp add: call_with_retry_def)

text \<open>
  \<open>retries = -1\<close>.
\<close>

theorem retry_without_attempts_witness:
  "call_with_retry (fail_first 0) (- 1) (float_of_int 2) ''op'' (start 0) =
     (Inl (RuntimeError ''op failed after -1 attempts'' None), start 0)"
  using retry_without_attempts
    [where retries = "- 1" and func = "fail_first 0" and retry_delay = "float_of_int 2"
       and action_name = "''op''" and s = "start 0"]
  by (simp add: str_int_def str_nat.simps)

section \<open>Properties of the market validation\<close>

text \<open>
  Reading a printed list back. \<open>listed\<close> recovers the strings of a list from the text
  that Python prints for it, whatever the characters of the strings: the quotes chosen,
  the escapes of quotes, backslashes and control characters, and the hexadecimal escapes
  are undone one by one, and what precedes the opening bracket is skipped.
\<close>

lemma hexval_digit: "k < 16 \<Longrightarrow> hexval (''0123456789abcdef'' ! k) = k"
proof -
  assume "k < 16"
  then have "k \<in> set [0, 1, 2, 3, 4, 5, 6, 7, 8, 9, 10, 11, 12, 13, 14, 15 :: nat]"
    by (simp only: list.set insert_iff empty_iff) presburger
  moreover have "\<forall>k\<in>set [0, 1, 2, 3, 4, 5, 6, 7, 8, 9, 10, 11, 12, 13, 14, 15 :: nat].
      hexval (''0123456789abcdef'' ! k) = k"
    by (simp add: hexval_def)
  ultimately show ?thesis by blast
qed

lemma unhex2:
  "char_of (16 * hexval (''0123456789abcdef'' ! (of_char c div 16))
            + hexval (''0123456789abcdef'' ! (of_char c mod 16))) = c"
proof -
  let ?n = "of_char c :: nat"
  have n: "?n < 256" by simp
  have d: "?n div 16 < 16" "?n mod 16 < 16" using n by presburger+
  have "16 * hexval (''0123456789abcdef'' ! (?n div 16))
          + hexval (''0123456789abcdef'' ! (?n mod 16)) = ?n"
    using hexval_digit [OF d(1)] hexval_digit [OF d(2)] by simp
  then show ?thesis by simp
qed

lemma read_repr_char:
  assumes "q = CHR 0x27 \<or> q = CHR 0x22"
  shows "read_list (Inside q) cur done (repr_char q c @ rest)
           = read_list (Inside q) (cur @ [c]) done rest"
proof (cases "c = q \<or> c = CHR 0x5C")
  case True
  then show ?thesis using assms by (auto simp: repr_char_def)
next
  case unquoted: False
  show ?thesis
  proof (cases "c = CHR 0x09 \<or> c = CHR 0x0A \<or> c = CHR 0x0D")
    case True
    then show ?thesis using assms unquoted by (auto simp: repr_char_def)
  next
    case unnamed: False
    show ?thesis
    proof (cases "(of_char c :: nat) < 32 \<or> (of_char c :: nat) = 127
        \<or> (\<not> (of_char c :: nat) < 127 \<and> ((of_char c :: nat) \<le> 160 \<or> (of_char c :: nat) = 173))")
      case True
      then have "repr_char q c = [CHR 0x5C, CHR ''x''] @ hex2 (of_char c)"
        using unquoted unnamed by (auto simp: repr_char_def Let_def)
      then show ?thesis
        using assms unhex2 [of c] by (auto simp: hex2_def)
    next
      case False
      then have "repr_char q c = [c]"
        using unquoted unnamed by (auto simp: repr_char_def Let_def)
      then show ?thesis using unquoted by simp
    qed
  qed
qed

lemma read_escaped:
  assumes "q = CHR 0x27 \<or> q = CHR 0x22"
  shows "read_list (Inside q) cur done (concat (map (repr_char q) str) @ rest)
           = read_list (Inside q) (cur @ str) done rest"
  using assms by (induction str arbitrary: cur) (simp_all add: read_repr_char)

lemma read_outside_cur: "read_list Outside cur done msg = read_list Outside [] done msg"
  by (induction msg) simp_all

lemma read_repr_str:
  "read_list Outside cur done (repr_str str @ rest) = read_list Outside [] (done @ [str]) rest"
proof -
  define q where "q = (if CHR 0x27 \<in> set str \<and> CHR 0x22 \<notin> set str then CHR 0x22 else CHR 0x27)"
  have q: "q = CHR 0x27 \<or> q = CHR 0x22" by (simp add: q_def)
  have "repr_str str @ rest = q # concat (map (repr_char q) str) @ q # rest"
    by (simp add: repr_str_def q_def Let_def)
  then show ?thesis
    using q read_escaped [OF q, of "[]" "done" str "q # rest"] by auto
qed

lemma read_joined:
  "read_list Outside [] done (join '', '' (map repr_str xs) @ '']'') = done @ xs"
proof (induction xs arbitrary: "done" rule: induct_list012)
  case 1
  show ?case by simp
next
  case (2 x)
  show ?case by (simp add: read_repr_str)
next
  case (3 x y zs)
  show ?case using "3.IH"(2) by (simp add: read_repr_str)
qed

lemma listed_repr_list: "listed (repr_list xs) = xs"
  using read_joined [of "[]" xs] by (simp add: listed_def repr_list_def)

lemma listed_message:
  "listed (''Symbols not available on Bitget swap market: '' @ repr_list xs) = xs"
  using read_joined [of "[]" xs] by (simp add: listed_def repr_list_def)

text \<open>
  C6. For every loaded market set and symbol table, \<open>validate_symbols\<close> raises its
  \<open>ValueError\<close> exactly when at least one identifier of the symbol table is not in the
  market set. The message is the fixed prefix followed by the list, as Python prints it,
  of the identifiers that are absent, in the order of the symbol table; read back, the
  message gives exactly these identifiers, none more and none less. Whether it raises or
  returns, the state comes back as it was given: the exchange is not called, nothing is
  logged, nothing sleeps, so nothing is retried.
\<close>

theorem validate_symbols_reports_missing:
  "validate_symbols exchange symbols s =
     (if \<exists>symbol \<in> set (map snd symbols). symbol \<notin> markets exchange
      then Inl (ValueError
                  (''Symbols not available on Bitget swap market: ''
                   @ repr_list (filter (\<lambda>symbol. symbol \<notin> markets exchange) (map snd symbols))))
      else Inr (), s)
   \<and> listed (''Symbols not available on Bitget swap market: ''
               @ repr_list (filter (\<lambda>symbol. symbol \<notin> markets exchange) (map snd symbols)))
       = filter (\<lambda>symbol. symbol \<notin> markets exchange) (map snd symbols)
   \<and> set (listed (''Symbols not available on Bitget swap market: ''
               @ repr_list (filter (\<lambda>symbol. symbol \<notin> markets exchange) (map snd symbols))))
       = {symbol \<in> snd ` set symbols. symbol \<notin> markets exchange}"
  unfolding listed_message
  by (auto simp: validate_symbols_def Let_def filter_empty_conv)

text \<open>
  The default symbol table against a market set that holds only XAUT: the message names
  XAU and PAXG, in this order. Against a market set that holds all three, the function
  returns. Against an empty market set, the identifiers with quotes, a backslash, control
  characters and characters beyond ASCII are all named, printed as Python prints them.
\<close>

theorem validate_symbols_reports_missing_witness:
  "validate_symbols (table_exchange {''XAUT/USDT:USDT''} three_series)
       DEFAULT_SYMBOLS (start ()) =
     (Inl (ValueError
        ''Symbols not available on Bitget swap market: ['XAU/USDT:USDT', 'PAXG/USDT:USDT']''),
      start ())
   \<and> listed
        ''Symbols not available on Bitget swap market: ['XAU/USDT:USDT', 'PAXG/USDT:USDT']''
       = [''XAU/USDT:USDT'', ''PAXG/USDT:USDT'']
   \<and> validate_symbols
       (table_exchange {''XAU/USDT:USDT'', ''XAUT/USDT:USDT'', ''PAXG/USDT:USDT''} three_series)
       DEFAULT_SYMBOLS (start ()) =
     (Inr (), start ())
   \<and> validate_symbols (table_exchange {} three_series) odd_symbols (start ()) =
     (Inl (ValueError
      [CHR ''S'', CHR ''y'', CHR ''m'', CHR ''b'', CHR ''o'', CHR ''l'', CHR ''s'',
       CHR '' '', CHR ''n'', CHR ''o'', CHR ''t'', CHR '' '', CHR ''a'', CHR ''v'',
       CHR ''a'', CHR ''i'', CHR ''l'', CHR ''a'', CHR ''b'', CHR ''l'', CHR ''e'',
       CHR '' '', CHR ''o'', CHR ''n'', CHR '' '', CHR ''B'', CHR ''i'', CHR ''t'',
       CHR ''g'', CHR ''e'', CHR ''t'', CHR '' '', CHR ''s'', CHR ''w'', CHR ''a'',
       CHR ''p'', CHR '' '', CHR ''m'', CHR ''a'', CHR ''r'', CHR ''k'', CHR ''e'',
       CHR ''t'', CHR '':'', CHR '' '', CHR ''['', CHR 0x22, CHR ''i'', CHR ''t'',
       CHR 0x27, CHR ''s'', CHR 0x22, CHR '','', CHR '' '', CHR 0x27, CHR 0x5C, CHR 0x27,
       CHR 0x22, CHR 0x5C, CHR 0x5C, CHR 0x27, CHR '','', CHR '' '', CHR 0x27, CHR 0x5C,
       CHR ''t'', CHR 0x5C, CHR ''n'', CHR 0x5C, CHR ''r'', CHR 0x5C, CHR ''x'', CHR ''0'',
       CHR ''1'', CHR 0x5C, CHR ''x'', CHR ''1'', CHR ''f'', CHR 0x5C, CHR ''x'',
       CHR ''7'', CHR ''f'', CHR 0x27, CHR '','', CHR '' '', CHR 0x27, CHR 0x5C, CHR ''x'',
       CHR ''8'', CHR ''0'', CHR 0x5C, CHR ''x'', CHR ''a'', CHR ''0'', CHR 0xA1, CHR 0x5C,
       CHR ''x'', CHR ''a'', CHR ''d'', CHR 0xE9, CHR 0xFF, CHR ''~'', CHR '' '', CHR 0x27,
       CHR '']'']),
      start ())"
proof -
  let ?lacking = "table_exchange {''XAUT/USDT:USDT''} three_series"
  let ?complete =
    "table_exchange {''XAU/USDT:USDT'', ''XAUT/USDT:USDT'', ''PAXG/USDT:USDT''} three_series"
  let ?none = "table_exchange {} three_series"
  have absent:
    "filter (\<lambda>symbol. symbol \<notin> markets ?lacking) (map snd DEFAULT_SYMBOLS)
       = [''XAU/USDT:USDT'', ''PAXG/USDT:USDT'']"
    "filter (\<lambda>symbol. symbol \<notin> markets ?complete) (map snd DEFAULT_SYMBOLS) = []"
    "filter (\<lambda>symbol. symbol \<notin> markets ?none) (map snd odd_symbols) = map snd odd_symbols"
    by (simp_all add: table_exchange_def DEFAULT_SYMBOLS_def)
  have some:
    "\<exists>symbol\<in>set (map snd DEFAULT_SYMBOLS). symbol \<notin> markets ?lacking"
    "\<not> (\<exists>symbol\<in>set (map snd DEFAULT_SYMBOLS). symbol \<notin> markets ?complete)"
    "\<exists>symbol\<in>set (map snd odd_symbols). symbol \<notin> markets ?none"
    by (auto simp: table_exchange_def DEFAULT_SYMBOLS_def odd_symbols_def)
  have printed:
    "repr_list [''XAU/USDT:USDT'', ''PAXG/USDT:USDT''] = ''['XAU/USDT:USDT', 'PAXG/USDT:USDT']''"
    by (simp add: repr_list_def repr_str_def repr_char_def Let_def)
  have odd: "''Symbols not available on Bitget swap market: '' @ repr_list (map snd odd_symbols) =
      [CHR ''S'', CHR ''y'', CHR ''m'', CHR ''b'', CHR ''o'', CHR ''l'', CHR ''s'',
       CHR '' '', CHR ''n'', CHR ''o'', CHR ''t'', CHR '' '', CHR ''a'', CHR ''v'',
       CHR ''a'', CHR ''i'', CHR ''l'', CHR ''a'', CHR ''b'', CHR ''l'', CHR ''e'',
       CHR '' '', CHR ''o'', CHR ''n'', CHR '' '', CHR ''B'', CHR ''i'', CHR ''t'',
       CHR ''g'', CHR ''e'', CHR ''t'', CHR '' '', CHR ''s'', CHR ''w'', CHR ''a'',
       CHR ''p'', CHR '' '', CHR ''m'', CHR ''a'', CHR ''r'', CHR ''k'', CHR ''e'',
       CHR ''t'', CHR '':'', CHR '' '', CHR ''['', CHR 0x22, CHR ''i'', CHR ''t'',
       CHR 0x27, CHR ''s'', CHR 0x22, CHR '','', CHR '' '', CHR 0x27, CHR 0x5C, CHR 0x27,
       CHR 0x22, CHR 0x5C, CHR 0x5C, CHR 0x27, CHR '','', CHR '' '', CHR 0x27, CHR 0x5C,
       CHR ''t'', CHR 0x5C, CHR ''n'', CHR 0x5C, CHR ''r'', CHR 0x5C, CHR ''x'', CHR ''0'',
       CHR ''1'', CHR 0x5C, CHR ''x'', CHR ''1'', CHR ''f'', CHR 0x5C, CHR ''x'',
       CHR ''7'', CHR ''f'', CHR 0x27, CHR '','', CHR '' '', CHR 0x27, CHR 0x5C, CHR ''x'',
       CHR ''8'', CHR ''0'', CHR 0x5C, CHR ''x'', CHR ''a'', CHR ''0'', CHR 0xA1, CHR 0x5C,
       CHR ''x'', CHR ''a'', CHR ''d'', CHR 0xE9, CHR 0xFF, CHR ''~'', CHR '' '', CHR 0x27,
       CHR '']'']"
    by (simp add: odd_symbols_def repr_list_def repr_str_def repr_char_def hex2_def Let_def)
  show ?thesis
    using validate_symbols_reports_missing [of ?lacking DEFAULT_SYMBOLS "start ()"]
      validate_symbols_reports_missing [of ?complete DEFAULT_SYMBOLS "start ()"]
      validate_symbols_reports_missing [of ?none odd_symbols "start ()"]
    unfolding absent if_P [OF some(1)] if_not_P [OF some(2)] if_P [OF some(3)] printed odd
    by simp
qed

section \<open>Properties of the price fetcher\<close>

lemma to_datetime_ms_less: "to_datetime_ms a < to_datetime_ms b \<longleftrightarrow> a < b"
  by (simp add: to_datetime_ms_def)

lemma sorted_wrt_to_datetime_ms:
  "sorted_wrt (<) (map (\<lambda>c. to_datetime_ms (timestamp c)) xs)
     \<longleftrightarrow> sorted_wrt (<) (map timestamp xs)"
  by (simp add: sorted_wrt_map to_datetime_ms_less)

lemma distinct_to_datetime_ms:
  "distinct (map (\<lambda>c. to_datetime_ms (timestamp c)) xs) \<longleftrightarrow> distinct (map timestamp xs)"
  by (auto simp: distinct_map inj_on_def to_datetime_ms_def)

lemma to_datetime_column_in_range:
  "list_all (\<lambda>c. timestamp_in_range (timestamp c)) ohlcv \<Longrightarrow>
   to_datetime_column (map timestamp ohlcv) = Inr (map (\<lambda>c. to_datetime_ms (timestamp c)) ohlcv)"
  by (simp add: to_datetime_column_def list_all_iff)

lemma to_datetime_column_out_of_range:
  "\<not> list_all (\<lambda>c. timestamp_in_range (timestamp c)) ohlcv \<Longrightarrow>
   to_datetime_column (map timestamp ohlcv) = Inl OutOfBoundsDatetime"
  by (simp add: to_datetime_column_def list_all_iff)

text \<open>
  C8 (as amended). For every non-empty candle list that the retry executor returns from
  the exchange: when every timestamp of the list is one that pandas can hold as an
  instant, \<open>fetch_close_series\<close> returns, in the state the executor left, the series of
  the instants and closing prices of the candles, candle by candle in the order of the
  exchange; the timestamps of the series are strictly increasing exactly when those of
  the candles are, and free of duplicates exactly when those of the candles are. When
  some timestamp is outside that range, it raises \<open>OutOfBoundsDatetime\<close> and returns no
  series.
\<close>

theorem fetch_close_series_keeps_candle_order:
  assumes "call_with_retry (fetch_ohlcv exchange symbol timeframe limit) retries retry_delay
             (''fetch_ohlcv('' @ symbol @ '')'') s = (Inr ohlcv, s')"
    and "ohlcv \<noteq> []"
  shows "(list_all (\<lambda>c. timestamp_in_range (timestamp c)) ohlcv \<longrightarrow>
           (\<exists>close_series.
              fetch_close_series exchange symbol timeframe limit retries retry_delay s
                = (Inr close_series, s')
              \<and> timestamps close_series = map (\<lambda>c. to_datetime_ms (timestamp c)) ohlcv
              \<and> map snd (items close_series) = map close ohlcv
              \<and> (sorted_wrt (<) (timestamps close_series)
                   \<longleftrightarrow> sorted_wrt (<) (map timestamp ohlcv))
              \<and> (distinct (timestamps close_series) \<longleftrightarrow> distinct (map timestamp ohlcv))))
       \<and> (\<not> list_all (\<lambda>c. timestamp_in_range (timestamp c)) ohlcv \<longrightarrow>
            fetch_close_series exchange symbol timeframe limit retries retry_delay s
              = (Inl OutOfBoundsDatetime, s'))"
  using assms
  by (auto simp: fetch_close_series_def timestamps_def to_datetime_column_in_range
      to_datetime_column_out_of_range sorted_wrt_to_datetime_ms distinct_to_datetime_ms)

lemma call_table_exchange:
  "1 \<le> retries \<Longrightarrow>
   call_with_retry (fetch_ohlcv (table_exchange mk tab) symbol timeframe limit) retries d n s =
     (Inr (tab symbol), s\<lparr>trace := trace s @ [Invoked]\<rparr>)"
  by (simp add: call_with_retry_def upto_rec1 table_exchange_def invoke_def)

lemma flat_candles_in_range:
  "timestamp_in_range 1" "timestamp_in_range 2" "timestamp_in_range 3" "timestamp_in_range 4"
  "\<not> timestamp_in_range 10000000000000000"
  by (simp_all add: timestamp_in_range_def)

text \<open>The three candles of the first example series, at the timestamps 1, 2 and 3.\<close>

theorem fetch_close_series_keeps_candle_order_witness:
  "\<exists>close_series.
     fetch_close_series (table_exchange {} three_series) ''X'' ''1h'' 3 3 (float_of_int 2)
         (start ())
       = (Inr close_series, \<lparr>world = (), trace = [Invoked], os_sleep = sleeps_always\<rparr>)
     \<and> timestamps close_series = [1000000, 2000000, 3000000]
     \<and> map snd (items close_series) = [float_of_int 10, float_of_int 10, float_of_int 10]
     \<and> sorted_wrt (<) (timestamps close_series)
     \<and> distinct (timestamps close_series)"
  using fetch_close_series_keeps_candle_order
    [where exchange = "table_exchange {} three_series" and symbol = "''X''"
       and timeframe = "''1h''" and limit = 3 and retries = 3 and retry_delay = "float_of_int 2"
       and s = "start ()" and ohlcv = "three_series ''X''"
       and s' = "\<lparr>world = (), trace = [Invoked], os_sleep = sleeps_always\<rparr>"]
  by (simp add: call_table_exchange three_series_def flat_candle_def to_datetime_ms_def
      flat_candles_in_range start_def)

text \<open>
  C8 as stated fails in two ways. The function neither sorts nor removes duplicates: for
  candles at the timestamps 2, 1, 1 the series has these three, in this order, neither
  increasing nor free of duplicates. And not every non-empty candle list gives a series:
  for a candle at the timestamp \<open>10 ^ 16\<close> milliseconds the conversion raises.
\<close>

theorem fetch_close_series_keeps_what_it_gets:
  "fetch_close_series (table_exchange {} repeated_candles) ''X'' ''1h'' 3 3 (float_of_int 2)
       (start ()) =
     (Inr \<lparr>series_name = ''close'',
           items = [(2000000, float_of_int 10), (1000000, float_of_int 11),
                    (1000000, float_of_int 12)]\<rparr>,
      \<lparr>world = (), trace = [Invoked], os_sleep = sleeps_always\<rparr>)
   \<and> \<not> sorted_wrt (<) (timestamps
         \<lparr>series_name = ''close'',
          items = [(2000000, float_of_int 10), (1000000, float_of_int 11),
                   (1000000, float_of_int 12)]\<rparr>)
   \<and> \<not> distinct (timestamps
         \<lparr>series_name = ''close'',
          items = [(2000000, float_of_int 10), (1000000, float_of_int 11),
                   (1000000, float_of_int 12)]\<rparr>)
   \<and> fetch_close_series (table_exchange {} late_candle) ''X'' ''1h'' 3 3 (float_of_int 2)
       (start ()) =
     (Inl OutOfBoundsDatetime, \<lparr>world = (), trace = [Invoked], os_sleep = sleeps_always\<rparr>)"
  by (simp add: fetch_close_series_def call_table_exchange repeated_candles_def late_candle_def
      flat_candle_def to_datetime_ms_def to_datetime_column_def timestamps_def
      flat_candles_in_range start_def)

section \<open>Properties of the aligned price table\<close>

text \<open>
  On indexes without duplicate labels the intersection is a filter of its left operand,
  and the fold over the series keeps the labels of the first series that occur in every
  other one, in the order of the first series.
\<close>

lemma unique_distinct: "distinct xs \<Longrightarrow> unique xs = xs"
  by (simp add: unique_def distinct_remdups_id)

lemma index_intersection_distinct:
  "distinct xs \<Longrightarrow> index_intersection xs ys = filter (\<lambda>t. t \<in> set ys) xs"
  by (simp add: index_intersection_def unique_distinct)

lemma foldl_index_intersection:
  "distinct acc \<Longrightarrow>
   foldl index_intersection acc ls = filter (\<lambda>t. \<forall>l\<in>set ls. t \<in> set l) acc"
proof (induction ls arbitrary: acc)
  case Nil
  show ?case by simp
next
  case (Cons l ls)
  have "distinct (filter (\<lambda>t. t \<in> set l) acc)" using Cons.prems by simp
  then show ?case
    using Cons.IH [of "filter (\<lambda>t. t \<in> set l) acc"] Cons.prems
    by (simp add: index_intersection_distinct conj_commute)
qed

lemma pd_concat_inner_index:
  assumes "series_list \<noteq> []"
    and "length series_list = 1 \<or> (\<forall>c\<in>set series_list. distinct (timestamps c))"
  shows "\<exists>df. pd_concat_inner series_list = Inr df
           \<and> index df = filter (\<lambda>t. \<forall>c\<in>set series_list. t \<in> set (timestamps c))
                           (timestamps (hd series_list))
           \<and> map fst (columns df) = map series_name series_list"
proof (cases series_list)
  case Nil
  with assms(1) show ?thesis by simp
next
  case (Cons c rest)
  show ?thesis
  proof (cases rest)
    case Nil
    have "filter (\<lambda>t. t \<in> set (timestamps c)) (timestamps c) = timestamps c"
      by (simp add: filter_id_conv)
    with Cons Nil show ?thesis by (simp add: pd_concat_inner_def)
  next
    case inner: (Cons c2 rest2)
    then have all: "\<forall>c\<in>set series_list. distinct (timestamps c)"
      using assms(2) Cons by auto
    then have d: "list_all (\<lambda>c. distinct (timestamps c)) series_list"
      by (simp add: list_all_iff)
    have c: "distinct (timestamps c)" using all Cons by simp
    have "foldl index_intersection (timestamps c) (map timestamps rest)
        = filter (\<lambda>t. \<forall>l\<in>set (map timestamps rest). t \<in> set l) (timestamps c)"
      by (rule foldl_index_intersection [OF c])
    also have "\<dots> = filter (\<lambda>t. \<forall>c'\<in>set (c # rest). t \<in> set (timestamps c')) (timestamps c)"
      by (rule filter_cong) auto
    finally have idx: "foldl index_intersection (timestamps c) (map timestamps rest)
        = filter (\<lambda>t. \<forall>c'\<in>set (c # rest). t \<in> set (timestamps c')) (timestamps c)" .
    show ?thesis
      using d idx unfolding Cons inner pd_concat_inner_def
      by (simp add: Let_def comp_def)
  qed
qed

text \<open>
  C3 (as amended). For every family of fetched closing-price series that is not empty and
  whose series have no duplicate timestamps (or that is a single series): when some
  timestamp occurs in every series, \<open>build_price_df\<close> returns a table whose set of row
  timestamps is exactly the intersection of the timestamp sets of the series; its rows
  are the timestamps of the first series that occur in every series, in the order of the
  first series, hence ascending when the first series is ascending. When no timestamp
  occurs in every series, it raises the \<open>ValueError\<close> of the empty join and returns no
  table.
\<close>

theorem build_price_df_inner_join:
  assumes "fetch_all exchange timeframe limit retries retry_delay symbols [] s = (Inr series_list, s')"
    and "series_list \<noteq> []"
    and "length series_list = 1 \<or> (\<forall>c\<in>set series_list. distinct (timestamps c))"
  shows "((\<exists>t. \<forall>c\<in>set series_list. t \<in> set (timestamps c)) \<longrightarrow>
           (\<exists>price_df.
              build_price_df exchange symbols timeframe limit retries retry_delay s
                = (Inr price_df, s')
              \<and> set (index price_df) = (\<Inter>c\<in>set series_list. set (timestamps c))
              \<and> index price_df
                  = filter (\<lambda>t. \<forall>c\<in>set series_list. t \<in> set (timestamps c))
                      (timestamps (hd series_list))
              \<and> (sorted_wrt (<) (timestamps (hd series_list))
                   \<longrightarrow> sorted_wrt (<) (index price_df))))
       \<and> (\<not> (\<exists>t. \<forall>c\<in>set series_list. t \<in> set (timestamps c)) \<longrightarrow>
            build_price_df exchange symbols timeframe limit retries retry_delay s
              = (Inl (ValueError
                   ''Joined price dataframe is empty. Check symbols/timeframe/limit.''), s'))"
proof -
  obtain df where df: "pd_concat_inner series_list = Inr df"
      "index df = filter (\<lambda>t. \<forall>c\<in>set series_list. t \<in> set (timestamps c))
                    (timestamps (hd series_list))"
      "map fst (columns df) = map series_name series_list"
    using pd_concat_inner_index [OF assms(2,3)] by blast
  have hd: "hd series_list \<in> set series_list" using assms(2) by simp
  have rows: "set (index df) = (\<Inter>c\<in>set series_list. set (timestamps c))"
    unfolding df(2) using hd by auto
  have columns: "columns df \<noteq> []" using df(3) assms(2) by auto
  have order: "sorted_wrt (<) (timestamps (hd series_list)) \<longrightarrow> sorted_wrt (<) (index df)"
    unfolding df(2) by (simp add: sorted_wrt_filter)
  show ?thesis
  proof (intro conjI impI)
    assume "\<exists>t. \<forall>c\<in>set series_list. t \<in> set (timestamps c)"
    then obtain t where "t \<in> set (index df)" using rows by auto
    then have "index df \<noteq> []" by auto
    then have "\<not> df_empty df" using columns by (simp add: df_empty_def)
    then have "build_price_df exchange symbols timeframe limit retries retry_delay s
        = (Inr df, s')"
      using assms(1) df(1) by (simp add: build_price_df_def)
    then show "\<exists>price_df.
              build_price_df exchange symbols timeframe limit retries retry_delay s
                = (Inr price_df, s')
              \<and> set (index price_df) = (\<Inter>c\<in>set series_list. set (timestamps c))
              \<and> index price_df
                  = filter (\<lambda>t. \<forall>c\<in>set series_list. t \<in> set (timestamps c))
                      (timestamps (hd series_list))
              \<and> (sorted_wrt (<) (timestamps (hd series_list))
                   \<longrightarrow> sorted_wrt (<) (index price_df))"
      using rows df(2) order by blast
  next
    assume "\<not> (\<exists>t. \<forall>c\<in>set series_list. t \<in> set (timestamps c))"
    then have "set (index df) = {}" using rows by auto
    then have "df_empty df" by (simp add: df_empty_def)
    then show "build_price_df exchange symbols timeframe limit retries retry_delay s
              = (Inl (ValueError
                   ''Joined price dataframe is empty. Check symbols/timeframe/limit.''), s')"
      using assms(1) df(1) by (simp add: build_price_df_def)
  qed
qed

text \<open>The calls of the examples, evaluated.\<close>

lemma fetch_table_exchange:
  "1 \<le> retries \<Longrightarrow>
   fetch_close_series (table_exchange mk tab) symbol timeframe limit retries d s =
     (if tab symbol = [] then Inl (ValueError (''No OHLCV data returned for '' @ symbol))
      else (case to_datetime_column (map timestamp (tab symbol)) of
              Inl e \<Rightarrow> Inl e
            | Inr instants \<Rightarrow>
                Inr \<lparr>series_name = ''close'', items = zip instants (map close (tab symbol))\<rparr>),
      s\<lparr>trace := trace s @ [Invoked]\<rparr>)"
  by (simp add: fetch_close_series_def call_table_exchange split: sum.splits)

lemma fetch_all_three_series:
  "fetch_all (table_exchange {} three_series) ''1h'' 3 3 (float_of_int 2)
       [(''X'', ''X''), (''Y'', ''Y''), (''Z'', ''Z'')] [] (start ()) =
     (Inr [\<lparr>series_name = ''X'',
            items = [(1000000, float_of_int 10), (2000000, float_of_int 10),
                     (3000000, float_of_int 10)]\<rparr>,
           \<lparr>series_name = ''Y'',
            items = [(2000000, float_of_int 9), (3000000, float_of_int 9),
                     (4000000, float_of_int 9)]\<rparr>,
           \<lparr>series_name = ''Z'',
            items = [(2000000, float_of_int 11), (3000000, float_of_int 11)]\<rparr>],
      \<lparr>world = (), trace = [Invoked, Invoked, Invoked], os_sleep = sleeps_always\<rparr>)"
  by (simp add: fetch_table_exchange three_series_def flat_candle_def to_datetime_ms_def
      to_datetime_column_def flat_candles_in_range start_def)

lemma build_price_df_three_series:
  "build_price_df (table_exchange {} three_series) [(''X'', ''X''), (''Y'', ''Y''), (''Z'', ''Z'')]
       ''1h'' 3 3 (float_of_int 2) (start ()) =
     (Inr \<lparr>index = [2000000, 3000000],
           columns = [(''X'', [float_of_int 10, float_of_int 10]),
                      (''Y'', [float_of_int 9, float_of_int 9]),
                      (''Z'', [float_of_int 11, float_of_int 11])]\<rparr>,
      \<lparr>world = (), trace = [Invoked, Invoked, Invoked], os_sleep = sleeps_always\<rparr>)"
  unfolding build_price_df_def fetch_all_three_series
  by (simp add: pd_concat_inner_def timestamps_def
      index_intersection_def unique_def List.map_filter_def df_empty_def)

text \<open>
  The example of the specification: series at the timestamps 1, 2, 3, at 2, 3, 4 and at
  2, 3 give a table with exactly the rows 2 and 3, in this order.
\<close>

theorem build_price_df_inner_join_witness:
  "\<exists>price_df.
     build_price_df (table_exchange {} three_series) [(''X'', ''X''), (''Y'', ''Y''), (''Z'', ''Z'')]
         ''1h'' 3 3 (float_of_int 2) (start ())
       = (Inr price_df,
          \<lparr>world = (), trace = [Invoked, Invoked, Invoked], os_sleep = sleeps_always\<rparr>)
     \<and> set (index price_df) = {2000000, 3000000}
     \<and> index price_df = [2000000, 3000000]
     \<and> sorted_wrt (<) (index price_df)"
proof -
  let ?family = "[\<lparr>series_name = ''X'',
            items = [(1000000, float_of_int 10), (2000000, float_of_int 10),
                     (3000000, float_of_int 10)]\<rparr>,
           \<lparr>series_name = ''Y'',
            items = [(2000000, float_of_int 9), (3000000, float_of_int 9),
                     (4000000, float_of_int 9)]\<rparr>,
           \<lparr>series_name = ''Z'',
            items = [(2000000, float_of_int 11), (3000000, float_of_int 11)]\<rparr>]"
  have nonempty: "?family \<noteq> []" by simp
  have free: "length ?family = 1 \<or> (\<forall>c\<in>set ?family. distinct (timestamps c))"
    by (simp add: timestamps_def)
  have common: "\<exists>t::int. \<forall>c\<in>set ?family. t \<in> set (timestamps c)"
    by (rule exI [of _ 2000000]) (simp add: timestamps_def)
  have ascending: "sorted_wrt (<) (timestamps (hd ?family))"
    by (simp add: timestamps_def)
  have rows: "(\<Inter>c\<in>set ?family. set (timestamps c)) = {2000000, 3000000}"
    by (auto simp: timestamps_def)
  have order: "filter (\<lambda>t. \<forall>c\<in>set ?family. t \<in> set (timestamps c)) (timestamps (hd ?family))
      = [2000000, 3000000]"
    by (simp add: timestamps_def)
  show ?thesis
    using build_price_df_inner_join [OF fetch_all_three_series nonempty free] common ascending
    unfolding rows order
    by blast
qed

text \<open>
  C3 as stated fails in four ways. Two non-empty series at the timestamps 1 and 2 give no
  table: the empty join raises. A first series at the timestamps 2, 1 joined with one at
  1, 2 gives the rows 2, 1, which are not ascending: the join does not sort. A series
  with the timestamp 1 twice, joined with another series, gives no table: pandas refuses
  to reindex it. And an empty symbol table gives no table: pandas refuses to concatenate
  nothing.
\<close>

theorem build_price_df_without_table:
  "build_price_df (table_exchange {} disjoint_series) [(''X'', ''X''), (''Y'', ''Y'')]
       ''1h'' 3 3 (float_of_int 2) (start ()) =
     (Inl (ValueError ''Joined price dataframe is empty. Check symbols/timeframe/limit.''),
      \<lparr>world = (), trace = [Invoked, Invoked], os_sleep = sleeps_always\<rparr>)
   \<and> build_price_df (table_exchange {} unsorted_series) [(''X'', ''X''), (''Y'', ''Y'')]
       ''1h'' 3 3 (float_of_int 2) (start ()) =
     (Inr \<lparr>index = [2000000, 1000000],
           columns = [(''X'', [float_of_int 10, float_of_int 10]),
                      (''Y'', [float_of_int 9, float_of_int 9])]\<rparr>,
      \<lparr>world = (), trace = [Invoked, Invoked], os_sleep = sleeps_always\<rparr>)
   \<and> \<not> sorted_wrt (<) [2000000, 1000000 :: int]
   \<and> build_price_df (table_exchange {} duplicated_series) [(''X'', ''X''), (''Y'', ''Y'')]
       ''1h'' 3 3 (float_of_int 2) (start ()) =
     (Inl (ValueError ''cannot reindex on an axis with duplicate labels''),
      \<lparr>world = (), trace = [Invoked, Invoked], os_sleep = sleeps_always\<rparr>)
   \<and> build_price_df (table_exchange {} three_series) [] ''1h'' 3 3 (float_of_int 2) (start ()) =
     (Inl (ValueError ''No objects to concatenate''), start ())"
  by (simp add: build_price_df_def fetch_table_exchange disjoint_series_def unsorted_series_def
      duplicated_series_def flat_candle_def to_datetime_ms_def to_datetime_column_def
      flat_candles_in_range pd_concat_inner_def timestamps_def
      index_intersection_def unique_def List.map_filter_def df_empty_def start_def)

text \<open>Empty data.\<close>

lemma call_with_retry_first_success:
  assumes "1 \<le> retries" and "func (world s) = (Inr v, w')"
  shows "call_with_retry func retries d n s =
           (Inr v, s\<lparr>world := w', trace := trace s @ [Invoked]\<rparr>)"
  unfolding call_with_retry_def upto_rec1 [OF assms(1)]
  by (rule retry_loop_success [where func = func and s = s, OF assms(2)])

lemma fetch_close_series_nonempty:
  assumes "fetch_close_series exchange symbol timeframe limit retries retry_delay s
             = (Inr close_series, s')"
  shows "items close_series \<noteq> []"
  using assms
  by (auto simp: fetch_close_series_def to_datetime_column_def
      split: prod.splits sum.splits if_splits)

lemma build_price_df_nonempty:
  assumes "build_price_df exchange symbols timeframe limit retries retry_delay s = (Inr price_df, s')"
  shows "\<not> df_empty price_df"
  using assms by (auto simp: build_price_df_def split: prod.splits sum.splits if_splits)

text \<open>
  C5. Empty data is not passed on. When the exchange returns zero candles at the first
  attempt, \<open>fetch_close_series\<close> raises the \<open>ValueError\<close> naming the symbol after that
  single invocation; whenever the retry executor returns an empty candle list, it raises
  it in the state the executor left, with no further attempt; a series that it returns
  is never empty. When the fetched series join to a table without rows,
  \<open>build_price_df\<close> raises the \<open>ValueError\<close> of the empty join; a table that it
  returns has at least one row and one column.
\<close>

theorem empty_data_raises:
  "(1 \<le> retries \<and> fetch_ohlcv exchange symbol timeframe limit (world s) = (Inr [], w')
      \<longrightarrow> fetch_close_series exchange symbol timeframe limit retries retry_delay s
            = (Inl (ValueError (''No OHLCV data returned for '' @ symbol)),
               s\<lparr>world := w', trace := trace s @ [Invoked]\<rparr>))
   \<and> (call_with_retry (fetch_ohlcv exchange symbol timeframe limit) retries retry_delay
          (''fetch_ohlcv('' @ symbol @ '')'') s = (Inr [], s_call)
      \<longrightarrow> fetch_close_series exchange symbol timeframe limit retries retry_delay s
            = (Inl (ValueError (''No OHLCV data returned for '' @ symbol)), s_call))
   \<and> (fetch_close_series exchange symbol timeframe limit retries retry_delay s
          = (Inr close_series, s_fetch)
      \<longrightarrow> items close_series \<noteq> [])
   \<and> (fetch_all exchange timeframe limit retries retry_delay symbols [] s = (Inr series_list, s_all)
        \<and> pd_concat_inner series_list = Inr joined \<and> index joined = []
      \<longrightarrow> build_price_df exchange symbols timeframe limit retries retry_delay s
            = (Inl (ValueError
                 ''Joined price dataframe is empty. Check symbols/timeframe/limit.''), s_all))
   \<and> (build_price_df exchange symbols timeframe limit retries retry_delay s = (Inr price_df, s_built)
      \<longrightarrow> index price_df \<noteq> [] \<and> columns price_df \<noteq> [])"
proof (intro conjI impI)
  assume "1 \<le> retries \<and> fetch_ohlcv exchange symbol timeframe limit (world s) = (Inr [], w')"
  then show "fetch_close_series exchange symbol timeframe limit retries retry_delay s
            = (Inl (ValueError (''No OHLCV data returned for '' @ symbol)),
               s\<lparr>world := w', trace := trace s @ [Invoked]\<rparr>)"
    by (simp add: fetch_close_series_def call_with_retry_first_success)
next
  assume "call_with_retry (fetch_ohlcv exchange symbol timeframe limit) retries retry_delay
          (''fetch_ohlcv('' @ symbol @ '')'') s = (Inr [], s_call)"
  then show "fetch_close_series exchange symbol timeframe limit retries retry_delay s
            = (Inl (ValueError (''No OHLCV data returned for '' @ symbol)), s_call)"
    by (simp add: fetch_close_series_def)
next
  assume "fetch_close_series exchange symbol timeframe limit retries retry_delay s
          = (Inr close_series, s_fetch)"
  then show "items close_series \<noteq> []" by (rule fetch_close_series_nonempty)
next
  assume "fetch_all exchange timeframe limit retries retry_delay symbols [] s = (Inr series_list, s_all)
        \<and> pd_concat_inner series_list = Inr joined \<and> index joined = []"
  then show "build_price_df exchange symbols timeframe limit retries retry_delay s
            = (Inl (ValueError
                 ''Joined price dataframe is empty. Check symbols/timeframe/limit.''), s_all)"
    by (simp add: build_price_df_def df_empty_def)
next
  assume a: "build_price_df exchange symbols timeframe limit retries retry_delay s = (Inr price_df, s_built)"
  show "index price_df \<noteq> []"
    using build_price_df_nonempty [OF a] by (simp add: df_empty_def)
  show "columns price_df \<noteq> []"
    using build_price_df_nonempty [OF a] by (simp add: df_empty_def)
qed

lemma fetch_all_disjoint_series:
  "fetch_all (table_exchange {} disjoint_series) ''1h'' 3 3 (float_of_int 2)
       [(''X'', ''X''), (''Y'', ''Y'')] [] (start ()) =
     (Inr [\<lparr>series_name = ''X'', items = [(1000000, float_of_int 10)]\<rparr>,
           \<lparr>series_name = ''Y'', items = [(2000000, float_of_int 9)]\<rparr>],
      \<lparr>world = (), trace = [Invoked, Invoked], os_sleep = sleeps_always\<rparr>)"
  by (simp add: fetch_table_exchange disjoint_series_def flat_candle_def to_datetime_ms_def
      to_datetime_column_def flat_candles_in_range start_def)

lemma pd_concat_inner_disjoint_series:
  "pd_concat_inner [\<lparr>series_name = ''X'', items = [(1000000, float_of_int 10)]\<rparr>,
                    \<lparr>series_name = ''Y'', items = [(2000000, float_of_int 9)]\<rparr>] =
     Inr \<lparr>index = [], columns = [(''X'', []), (''Y'', [])]\<rparr>"
  by (simp add: pd_concat_inner_def timestamps_def index_intersection_def unique_def
      List.map_filter_def)

text \<open>
  A symbol without candles, a fetched series, two series without a common timestamp, and
  the table of the example.
\<close>

theorem empty_data_raises_witness:
  "fetch_close_series (table_exchange {} disjoint_series) ''W'' ''1h'' 3 3 (float_of_int 2)
       (start ()) =
     (Inl (ValueError ''No OHLCV data returned for W''),
      \<lparr>world = (), trace = [Invoked], os_sleep = sleeps_always\<rparr>)
   \<and> build_price_df (table_exchange {} disjoint_series) [(''X'', ''X''), (''Y'', ''Y'')]
       ''1h'' 3 3 (float_of_int 2) (start ()) =
     (Inl (ValueError ''Joined price dataframe is empty. Check symbols/timeframe/limit.''),
      \<lparr>world = (), trace = [Invoked, Invoked], os_sleep = sleeps_always\<rparr>)
   \<and> items \<lparr>series_name = ''close'', items = [(1000000, float_of_int 10)]\<rparr> \<noteq> []
   \<and> index \<lparr>index = [2000000, 3000000],
            columns = [(''X'', [float_of_int 10, float_of_int 10]),
                       (''Y'', [float_of_int 9, float_of_int 9]),
                       (''Z'', [float_of_int 11, float_of_int 11])]\<rparr> \<noteq> []"
proof -
  let ?s = "start ()"
  let ?d = "table_exchange {} disjoint_series"
  let ?two = "float_of_int 2"
  let ?after1 = "\<lparr>world = (), trace = [Invoked], os_sleep = sleeps_always\<rparr>"
  let ?after2 = "\<lparr>world = (), trace = [Invoked, Invoked], os_sleep = sleeps_always\<rparr>"
  let ?after3 = "\<lparr>world = (), trace = [Invoked, Invoked, Invoked], os_sleep = sleeps_always\<rparr>"
  let ?x = "\<lparr>series_name = ''close'', items = [(1000000, float_of_int 10)]\<rparr>"
  let ?family = "[\<lparr>series_name = ''X'', items = [(1000000, float_of_int 10)]\<rparr>,
                  \<lparr>series_name = ''Y'', items = [(2000000, float_of_int 9)]\<rparr>]"
  let ?joined = "\<lparr>index = [], columns = [(''X'', []), (''Y'', [])]\<rparr> :: dataframe"
  let ?table = "\<lparr>index = [2000000, 3000000],
            columns = [(''X'', [float_of_int 10, float_of_int 10]),
                       (''Y'', [float_of_int 9, float_of_int 9]),
                       (''Z'', [float_of_int 11, float_of_int 11])]\<rparr>"
  have zero: "(1::int) \<le> 3 \<and> fetch_ohlcv ?d ''W'' ''1h'' 3 (world ?s) = (Inr [], ())"
    by (simp add: table_exchange_def disjoint_series_def)
  have after: "?s\<lparr>world := (), trace := trace ?s @ [Invoked]\<rparr> = ?after1"
    by (simp add: start_def)
  have one: "fetch_close_series ?d ''X'' ''1h'' 3 3 ?two ?s = (Inr ?x, ?after1)"
    by (simp add: fetch_table_exchange disjoint_series_def flat_candle_def to_datetime_ms_def
        to_datetime_column_def flat_candles_in_range start_def)
  have join: "fetch_all ?d ''1h'' 3 3 ?two [(''X'', ''X''), (''Y'', ''Y'')] [] ?s
        = (Inr ?family, ?after2)
      \<and> pd_concat_inner ?family = Inr ?joined
      \<and> index ?joined = []"
    by (intro conjI, rule fetch_all_disjoint_series, rule pd_concat_inner_disjoint_series, simp)
  have c1: "fetch_close_series ?d ''W'' ''1h'' 3 3 ?two ?s =
     (Inl (ValueError ''No OHLCV data returned for W''), ?after1)"
    using zero empty_data_raises
      [where exchange = ?d and symbol = "''W''" and timeframe = "''1h''" and limit = 3
         and retries = 3 and retry_delay = ?two and s = ?s and w' = "()"]
    unfolding after by simp
  have c2: "items ?x \<noteq> []"
    using one empty_data_raises
      [where exchange = ?d and symbol = "''X''" and timeframe = "''1h''" and limit = 3
         and retries = 3 and retry_delay = ?two and s = ?s
         and close_series = ?x and s_fetch = ?after1]
    by blast
  have c3: "build_price_df ?d [(''X'', ''X''), (''Y'', ''Y'')] ''1h'' 3 3 ?two ?s =
     (Inl (ValueError ''Joined price dataframe is empty. Check symbols/timeframe/limit.''),
      ?after2)"
    using join empty_data_raises
      [where exchange = ?d and symbols = "[(''X'', ''X''), (''Y'', ''Y'')]"
         and timeframe = "''1h''" and limit = 3 and retries = 3 and retry_delay = ?two
         and s = ?s and series_list = ?family and s_all = ?after2 and joined = ?joined]
    by blast
  have c4: "index ?table \<noteq> []"
    using build_price_df_three_series empty_data_raises
      [where exchange = "table_exchange {} three_series"
         and symbols = "[(''X'', ''X''), (''Y'', ''Y''), (''Z'', ''Z'')]"
         and timeframe = "''1h''" and limit = 3 and retries = 3 and retry_delay = ?two
         and s = ?s and s_built = ?after3 and price_df = ?table]
    by blast
  show ?thesis using c1 c2 c3 c4 by blast
qed

section \<open>Properties of the spreads\<close>

lemma update_fresh: "key \<notin> set (map fst al) \<Longrightarrow> AList.update key v al = al @ [(key, v)]"
  by (induction al) auto

lemma map_of_present: "key \<in> set (map fst al) \<Longrightarrow> \<exists>col. map_of al key = Some col"
  by (induction al) auto

lemma assign_difference_fresh:
  assumes "h r = df"
    and "map_of (columns df) a = Some col_a"
    and "map_of (columns df) b = Some col_b"
    and "target \<notin> set (map fst (columns df))"
  shows "assign_difference r target a b h =
           (Inr (), h(r := df\<lparr>columns := columns df @ [(target, map2 fsub col_a col_b)]\<rparr>))"
  using assms by (simp add: assign_difference_def getitem_def setitem_def update_fresh)

lemma add_spreads_aligned:
  assumes "aligned_table (h r)"
  shows "add_spreads r h =
           (Inr r,
            h(r := (h r)\<lparr>columns := columns (h r) @
                [(''XAU_minus_XAUT'', map2 fsub (column (h r) ''XAU'') (column (h r) ''XAUT'')),
                 (''XAU_minus_PAXG'', map2 fsub (column (h r) ''XAU'') (column (h r) ''PAXG'')),
                 (''PAXG_minus_XAUT'', map2 fsub (column (h r) ''PAXG'') (column (h r) ''XAUT''))]\<rparr>))"
proof -
  define df where "df = h r"
  let ?cs = "columns df"
  obtain xau xaut paxg where cols: "map_of ?cs ''XAU'' = Some xau"
      "map_of ?cs ''XAUT'' = Some xaut" "map_of ?cs ''PAXG'' = Some paxg"
    using assms map_of_present [of _ ?cs] by (auto simp: aligned_table_def df_def)
  have fresh: "''XAU_minus_XAUT'' \<notin> set (map fst ?cs)" "''XAU_minus_PAXG'' \<notin> set (map fst ?cs)"
      "''PAXG_minus_XAUT'' \<notin> set (map fst ?cs)"
    using assms by (auto simp: aligned_table_def df_def)
  define df1 where "df1 = df\<lparr>columns := ?cs @ [(''XAU_minus_XAUT'', map2 fsub xau xaut)]\<rparr>"
  define df2 where "df2 = df1\<lparr>columns := columns df1 @ [(''XAU_minus_PAXG'', map2 fsub xau paxg)]\<rparr>"
  define df3 where "df3 = df2\<lparr>columns := columns df2 @ [(''PAXG_minus_XAUT'', map2 fsub paxg xaut)]\<rparr>"
  have a1: "assign_difference r ''XAU_minus_XAUT'' ''XAU'' ''XAUT'' h = (Inr (), h(r := df1))"
    unfolding df1_def
    by (rule assign_difference_fresh [where df = df]) (use cols fresh in \<open>simp_all add: df_def\<close>)
  have a2: "assign_difference r ''XAU_minus_PAXG'' ''XAU'' ''PAXG'' (h(r := df1)) =
      (Inr (), (h(r := df1))(r := df2))"
    unfolding df2_def
    by (rule assign_difference_fresh [where df = df1])
       (use cols fresh in \<open>simp_all add: df1_def map_add_def\<close>)
  have a3: "assign_difference r ''PAXG_minus_XAUT'' ''PAXG'' ''XAUT'' (h(r := df2)) =
      (Inr (), (h(r := df2))(r := df3))"
    unfolding df3_def
    by (rule assign_difference_fresh [where df = df2])
       (use cols fresh in \<open>simp_all add: df1_def df2_def map_add_def\<close>)
  have "add_spreads r h = (Inr r, h(r := df3))"
    using a2 a3 unfolding add_spreads_def a1 by simp
  then show ?thesis
    using cols by (simp add: df3_def df2_def df1_def column_def df_def)
qed

lemma column_kept:
  "map_of cs key = Some col \<Longrightarrow> column (df\<lparr>columns := cs @ extra\<rparr>) key = col"
  by (simp add: column_def map_add_def)

lemma column_of_present:
  "key \<in> set (map fst (columns df)) \<Longrightarrow> map_of (columns df) key = Some (column df key)"
  using map_of_present [of key "columns df"] by (auto simp: column_def)

lemma column_added:
  "key \<notin> set (map fst cs) \<Longrightarrow> column (df\<lparr>columns := cs @ extra\<rparr>) key
     = (case map_of extra key of None \<Rightarrow> [] | Some col \<Rightarrow> col)"
  by (auto simp: column_def map_add_def map_of_eq_None_iff [symmetric] split: option.splits)

lemma column_length:
  assumes "aligned_table df" and "key \<in> set (map fst (columns df))"
  shows "length (column df key) = length (index df)"
proof -
  have "(key, column df key) \<in> set (columns df)"
    using column_of_present [OF assms(2)] by (rule map_of_SomeD)
  then show ?thesis
    using assms(1) by (auto simp: aligned_table_def list_all_iff)
qed

text \<open>
  C4. For every aligned table with the columns XAU, XAUT and PAXG, \<open>add_spreads\<close>
  returns the table with exactly three columns appended after the existing ones, named
  \<open>XAU_minus_XAUT\<close>, \<open>XAU_minus_PAXG\<close> and \<open>PAXG_minus_XAUT\<close> in this order, and
  each of them holds at every row the difference of the two named price columns at that
  row. The prices are floats and the difference is that of Python's \<open>-\<close> on floats:
  the difference of the two numbers, rounded to the nearest float when it is not one.
\<close>

theorem add_spreads_appends_differences:
  assumes "aligned_table (h price_df)"
  shows "fst (add_spreads price_df h) = Inr price_df
    \<and> columns (snd (add_spreads price_df h) price_df) = columns (h price_df) @
        [(''XAU_minus_XAUT'',
            map2 fsub (column (h price_df) ''XAU'') (column (h price_df) ''XAUT'')),
         (''XAU_minus_PAXG'',
            map2 fsub (column (h price_df) ''XAU'') (column (h price_df) ''PAXG'')),
         (''PAXG_minus_XAUT'',
            map2 fsub (column (h price_df) ''PAXG'') (column (h price_df) ''XAUT''))]
    \<and> (\<forall>i<length (index (h price_df)).
          column (snd (add_spreads price_df h) price_df) ''XAU_minus_XAUT'' ! i
            = fsub (column (h price_df) ''XAU'' ! i) (column (h price_df) ''XAUT'' ! i)
        \<and> column (snd (add_spreads price_df h) price_df) ''XAU_minus_PAXG'' ! i
            = fsub (column (h price_df) ''XAU'' ! i) (column (h price_df) ''PAXG'' ! i)
        \<and> column (snd (add_spreads price_df h) price_df) ''PAXG_minus_XAUT'' ! i
            = fsub (column (h price_df) ''PAXG'' ! i) (column (h price_df) ''XAUT'' ! i))"
proof -
  have present: "''XAU'' \<in> set (map fst (columns (h price_df)))"
      "''XAUT'' \<in> set (map fst (columns (h price_df)))"
      "''PAXG'' \<in> set (map fst (columns (h price_df)))"
    using assms by (auto simp: aligned_table_def)
  have fresh: "''XAU_minus_XAUT'' \<notin> set (map fst (columns (h price_df)))"
      "''XAU_minus_PAXG'' \<notin> set (map fst (columns (h price_df)))"
      "''PAXG_minus_XAUT'' \<notin> set (map fst (columns (h price_df)))"
    using assms by (auto simp: aligned_table_def)
  have len: "length (column (h price_df) ''XAU'') = length (index (h price_df))"
      "length (column (h price_df) ''XAUT'') = length (index (h price_df))"
      "length (column (h price_df) ''PAXG'') = length (index (h price_df))"
    using column_length [where df = "h price_df", OF assms] present by auto
  show ?thesis
    unfolding add_spreads_aligned [where h = h and r = price_df, OF assms]
    by (simp add: column_added [OF fresh(1)] column_added [OF fresh(2)]
        column_added [OF fresh(3)] len)
qed

lemma aligned_one_row: "aligned_table (one_table_heap 0)"
  by (simp add: aligned_table_def one_table_heap_def one_row_def)

text \<open>
  The row of the specification: XAU = 100, XAUT = 99, PAXG = 101 gives the differences
  1, -1 and 2.
\<close>

theorem add_spreads_appends_differences_witness:
  "fst (add_spreads 0 one_table_heap) = Inr 0
   \<and> columns (snd (add_spreads 0 one_table_heap) 0) =
       [(''XAU'', [float_of_int 100]), (''XAUT'', [float_of_int 99]),
        (''PAXG'', [float_of_int 101]),
        (''XAU_minus_XAUT'', [float_of_int 1]), (''XAU_minus_PAXG'', [float_of_int (- 1)]),
        (''PAXG_minus_XAUT'', [float_of_int 2])]"
  using add_spreads_appends_differences
    [where h = one_table_heap and price_df = 0, OF aligned_one_row]
  by (simp add: one_table_heap_def one_row_def column_def fsub_examples)

text \<open>
  C9 (as amended). For every aligned table, \<open>add_spreads\<close> leaves the row index and the
  columns that were there unchanged and in place, the price columns XAU, XAUT and PAXG
  among them, and appends only the three spread columns. The table it returns is its
  argument, the same object updated in place; no other object is touched.
\<close>

theorem add_spreads_frame:
  assumes "aligned_table (h price_df)"
  shows "fst (add_spreads price_df h) = Inr price_df
    \<and> index (snd (add_spreads price_df h) price_df) = index (h price_df)
    \<and> take (length (columns (h price_df))) (columns (snd (add_spreads price_df h) price_df))
        = columns (h price_df)
    \<and> column (snd (add_spreads price_df h) price_df) ''XAU'' = column (h price_df) ''XAU''
    \<and> column (snd (add_spreads price_df h) price_df) ''XAUT'' = column (h price_df) ''XAUT''
    \<and> column (snd (add_spreads price_df h) price_df) ''PAXG'' = column (h price_df) ''PAXG''
    \<and> map fst (drop (length (columns (h price_df)))
                  (columns (snd (add_spreads price_df h) price_df)))
        = [''XAU_minus_XAUT'', ''XAU_minus_PAXG'', ''PAXG_minus_XAUT'']
    \<and> (\<forall>other. other \<noteq> price_df \<longrightarrow> snd (add_spreads price_df h) other = h other)"
proof -
  have present: "''XAU'' \<in> set (map fst (columns (h price_df)))"
      "''XAUT'' \<in> set (map fst (columns (h price_df)))"
      "''PAXG'' \<in> set (map fst (columns (h price_df)))"
    using assms by (auto simp: aligned_table_def)
  show ?thesis
    unfolding add_spreads_aligned [where h = h and r = price_df, OF assms]
    by (simp add: column_kept [OF column_of_present [OF present(1)]]
        column_kept [OF column_of_present [OF present(2)]]
        column_kept [OF column_of_present [OF present(3)]])
qed

text \<open>
  The table of one row, held at reference 0.
\<close>

theorem add_spreads_frame_witness:
  "fst (add_spreads 0 one_table_heap) = Inr 0
   \<and> index (snd (add_spreads 0 one_table_heap) 0) = [3600000000000]
   \<and> column (snd (add_spreads 0 one_table_heap) 0) ''XAU'' = [float_of_int 100]
   \<and> column (snd (add_spreads 0 one_table_heap) 0) ''XAUT'' = [float_of_int 99]
   \<and> column (snd (add_spreads 0 one_table_heap) 0) ''PAXG'' = [float_of_int 101]
   \<and> snd (add_spreads 0 one_table_heap) 1 = empty_frame"
proof -
  have before: "index (one_table_heap 0) = [3600000000000]"
      "column (one_table_heap 0) ''XAU'' = [float_of_int 100]"
      "column (one_table_heap 0) ''XAUT'' = [float_of_int 99]"
      "column (one_table_heap 0) ''PAXG'' = [float_of_int 101]"
      "one_table_heap (Suc 0) = empty_frame"
    by (simp_all add: one_table_heap_def one_row_def column_def)
  show ?thesis
    using add_spreads_frame [where h = one_table_heap and price_df = 0, OF aligned_one_row]
    by (simp add: before)
qed

text \<open>
  C9 as stated fails where it takes the result for a fresh value: the reference returned
  is the reference passed in, and the table held there, three columns before the call,
  has six after it.
\<close>

theorem add_spreads_mutates_argument:
  "fst (add_spreads 0 one_table_heap) = Inr 0
   \<and> columns (one_table_heap 0) =
       [(''XAU'', [float_of_int 100]), (''XAUT'', [float_of_int 99]),
        (''PAXG'', [float_of_int 101])]
   \<and> columns (snd (add_spreads 0 one_table_heap) 0) =
       [(''XAU'', [float_of_int 100]), (''XAUT'', [float_of_int 99]),
        (''PAXG'', [float_of_int 101]),
        (''XAU_minus_XAUT'', [float_of_int 1]), (''XAU_minus_PAXG'', [float_of_int (- 1)]),
        (''PAXG_minus_XAUT'', [float_of_int 2])]
   \<and> snd (add_spreads 0 one_table_heap) 0 \<noteq> one_table_heap 0"
  by (simp add: add_spreads_def assign_difference_def getitem_def setitem_def
      one_table_heap_def one_row_def fsub_examples)

end
